theory Spec2Isabelle
  imports Main
begin

section \<open>JavaScript values used by the disconnect classification\<close>

text \<open>
  The reason code of a disconnect is read with
  \<^verbatim>\<open>lastDisconnect?.error?.output?.statusCode || lastDisconnect?.error?.statusCode\<close>
  and compared with \<^verbatim>\<open>===\<close>. Both operators depend on the JavaScript value, not
  only on a number: \<^verbatim>\<open>||\<close> skips every falsy left operand (undefined, null, false, 0,
  NaN, the empty string), and \<^verbatim>\<open>===\<close> never equates values of different types, nor NaN
  with itself. Status codes are whole numbers, so numbers are \<open>int\<close>, with NaN apart.
\<close>

datatype jsval = JUndefined | JNull | JBool bool | JNum int | JNaN | JStr string

fun truthy :: "jsval \<Rightarrow> bool" where
  "truthy JUndefined = False"
| "truthy JNull = False"
| "truthy (JBool b) = b"
| "truthy (JNum n) = (n \<noteq> 0)"
| "truthy JNaN = False"
| "truthy (JStr s) = (s \<noteq> [])"

definition strict_eq :: "jsval \<Rightarrow> jsval \<Rightarrow> bool" where
  "strict_eq a b = (a = b \<and> a \<noteq> JNaN)"

definition js_or :: "jsval \<Rightarrow> jsval \<Rightarrow> jsval" where
  "js_or a b = (if truthy a then a else b)"

text \<open>Truthiness of a variable that holds a string, null or undefined.\<close>

definition truthy_str :: "string option \<Rightarrow> bool" where
  "truthy_str v = (case v of None \<Rightarrow> False | Some s \<Rightarrow> s \<noteq> [])"

section \<open>The data of the program\<close>

text \<open>
  The \<^verbatim>\<open>connection.update\<close> event carries \<^verbatim>\<open>{ connection, lastDisconnect, qr }\<close>, each
  of them optional. \<^verbatim>\<open>lastDisconnect.error\<close> is an error object that may have an
  \<^verbatim>\<open>output\<close> with a \<^verbatim>\<open>statusCode\<close>, and a \<^verbatim>\<open>statusCode\<close> of its own.
\<close>

record boom_output =
  out_statusCode :: jsval

record boom =
  err_output :: "boom_output option"
  err_statusCode :: jsval

record last_disconnect =
  ld_error :: "boom option"

record conn_update =
  u_connection :: "string option"
  u_lastDisconnect :: "last_disconnect option"
  u_qr :: "string option"

text \<open>
  \<^verbatim>\<open>DisconnectReason\<close> is an enumeration of the network library; the program reads four
  of its members. The library is not part of the repository, so the members are a
  parameter of the model.
\<close>

record disconnect_reason =
  badSession :: jsval
  loggedOut :: jsval
  restartRequired :: jsval
  connectionClosed :: jsval

text \<open>
  The logger calls, by level and by the place of the call. The two source files word
  their messages differently; a place stands for the call in either file:
  \<^item> \<open>BaileysVersion\<close>, \<open>VersionFallback\<close>: after the version lookup, and in its catch;
  \<^item> \<open>StoreNotLoaded\<close>: the catch around the in-memory store (index.js);
  \<^item> \<open>QrGenerated\<close>, \<open>QrError\<close>: after the QR image is stored, and in the catch around it;
  \<^item> \<open>ConnectionUpdate\<close>, \<open>SessionOpen\<close>: the connection block;
  \<^item> \<open>LastDisconnect\<close>, \<open>SessionInvalid\<close>, \<open>AuthDeleteFailed\<close>, \<open>Restarting\<close>,
    \<open>Retry5s\<close>: the disconnect block;
  \<^item> \<open>HandlerError\<close>: the catch around the whole handler;
  \<^item> \<open>SocketInitialised\<close> (index.js), \<open>StartError\<close>: the end of the start function and
    its catch.
\<close>

datatype level = Debug | Info | Warn | Err

datatype log_site =
    BaileysVersion | VersionFallback | StoreNotLoaded
  | QrGenerated | QrError
  | ConnectionUpdate | SessionOpen
  | LastDisconnect | SessionInvalid | AuthDeleteFailed | Restarting | Retry5s
  | HandlerError
  | SocketInitialised | StartError

datatype fs_call = CallRmSync | CallUnlinkSync

record sock_config =
  cfg_version :: "nat list"
  cfg_auth :: string

text \<open>
  The state of the process: the three module variables read by the HTTP routes, the
  credential store on disk (\<open>None\<close> when the path does not exist), and the history of
  what the program did to the outside: removals asked of the file system, the delays
  of the \<^verbatim>\<open>setTimeout\<close> calls (each of them restarts the start function), the
  logger calls and the calls of \<^verbatim>\<open>makeWASocket\<close>.
\<close>

record state =
  latestQRCodeDataUrl :: "string option"
  qrLastUpdated :: "string option"
  connectionStatus :: string
  authStore :: "string option"
  fsCalls :: "fs_call list"
  timers :: "nat list"
  logs :: "(level \<times> log_site) list"
  socketCalls :: "sock_config list"

text \<open>
  What the handler gets from outside: the QR encoder (\<open>Inl\<close> when it throws), the two
  readings of the clock (\<^verbatim>\<open>new Date().toISOString()\<close> in the QR block and in the
  connection block), whether the file system refuses a removal, and what a refused
  recursive removal leaves of the directory it was asked to remove.
\<close>

record io =
  toDataURL :: "string \<Rightarrow> string + string"
  qrDate :: string
  openDate :: string
  fsFailure :: "string option"
  rmResidue :: "string \<Rightarrow> string"

text \<open>A statement completes normally or throws; either way the state it reached stays.\<close>

datatype completion = Normal state | Throw string state

definition log :: "level \<Rightarrow> log_site \<Rightarrow> state \<Rightarrow> state" where
  "log l m s = s\<lparr>logs := logs s @ [(l, m)]\<rparr>"

definition setTimeout :: "nat \<Rightarrow> state \<Rightarrow> state" where
  "setTimeout ms s = s\<lparr>timers := timers s @ [ms]\<rparr>"

section \<open>The file system calls\<close>

definition existsSync :: "state \<Rightarrow> bool" where
  "existsSync s = (authStore s \<noteq> None)"

text \<open>
  \<^verbatim>\<open>fs.rmSync(AUTH_DIR, { recursive: true, force: true })\<close>: with \<open>force\<close> a missing
  path is no error. The removal goes entry by entry: when the file system refuses it,
  the call throws after it may have removed a part, and the directory stays with
  whatever was not removed (all of it, some of it, or nothing but the directory).
\<close>

definition rmSync :: "io \<Rightarrow> state \<Rightarrow> completion" where
  "rmSync env s =
     (let s1 = s\<lparr>fsCalls := fsCalls s @ [CallRmSync]\<rparr> in
      case fsFailure env of
        Some e \<Rightarrow> Throw e (s1\<lparr>authStore := map_option (rmResidue env) (authStore s1)\<rparr>)
      | None \<Rightarrow> Normal (s1\<lparr>authStore := None\<rparr>))"

text \<open>
  \<^verbatim>\<open>fs.unlinkSync(AUTH_FILE)\<close>: a missing file is the error ENOENT; a refused removal
  of the one file leaves the file.
\<close>

definition unlinkSync :: "io \<Rightarrow> state \<Rightarrow> completion" where
  "unlinkSync env s =
     (let s1 = s\<lparr>fsCalls := fsCalls s @ [CallUnlinkSync]\<rparr> in
      if authStore s = None then Throw ''ENOENT'' s1
      else case fsFailure env of
        Some e \<Rightarrow> Throw e s1
      | None \<Rightarrow> Normal (s1\<lparr>authStore := None\<rparr>))"

section \<open>The connection.update handler\<close>

subsection \<open>The QR block\<close>

text \<open>
  \<^verbatim>\<open>
  if (qr) {
    try {
      latestQRCodeDataUrl = await QRCode.toDataURL(qr);
      qrLastUpdated = new Date().toISOString();
      connectionStatus = 'qr-generated';
      logger.info(...);
    } catch (qErr) { logger.error(...); }
  }
  \<close>
  The assignment to \<^verbatim>\<open>latestQRCodeDataUrl\<close> happens after the encoder returned, so a throw
  of the encoder leaves all three variables.
\<close>

definition qrBlock :: "io \<Rightarrow> conn_update \<Rightarrow> state \<Rightarrow> state" where
  "qrBlock env u s =
     (if truthy_str (u_qr u) then
        (case toDataURL env (the (u_qr u)) of
           Inr d \<Rightarrow>
             log Info QrGenerated
               (s\<lparr>latestQRCodeDataUrl := Some d,
                  qrLastUpdated := Some (qrDate env),
                  connectionStatus := ''qr-generated''\<rparr>)
         | Inl e \<Rightarrow> log Err QrError s)
      else s)"

subsection \<open>The connection block\<close>

text \<open>
  \<^verbatim>\<open>
  if (connection) {
    connectionStatus = connection;
    logger.info('connection.update', { connection });
    if (connection === 'open') {
      latestQRCodeDataUrl = null;
      qrLastUpdated = new Date().toISOString();
      logger.info(...);
    }
  }
  \<close>
\<close>

definition connectionBlock :: "io \<Rightarrow> conn_update \<Rightarrow> state \<Rightarrow> state" where
  "connectionBlock env u s =
     (if truthy_str (u_connection u) then
        (let s1 = log Info ConnectionUpdate (s\<lparr>connectionStatus := the (u_connection u)\<rparr>) in
         if u_connection u = Some ''open'' then
           log Info SessionOpen
             (s1\<lparr>latestQRCodeDataUrl := None, qrLastUpdated := Some (openDate env)\<rparr>)
         else s1)
      else s)"

subsection \<open>The disconnect block\<close>

text \<open>The two optional chains and the \<^verbatim>\<open>||\<close> between them.\<close>

definition outputStatusCode :: "last_disconnect option \<Rightarrow> jsval" where
  "outputStatusCode ld =
     (case ld of
        None \<Rightarrow> JUndefined
      | Some l \<Rightarrow>
          (case ld_error l of
             None \<Rightarrow> JUndefined
           | Some e \<Rightarrow>
               (case err_output e of
                  None \<Rightarrow> JUndefined
                | Some out \<Rightarrow> out_statusCode out)))"

definition errorStatusCode :: "last_disconnect option \<Rightarrow> jsval" where
  "errorStatusCode ld =
     (case ld of
        None \<Rightarrow> JUndefined
      | Some l \<Rightarrow> (case ld_error l of None \<Rightarrow> JUndefined | Some e \<Rightarrow> err_statusCode e))"

definition disconnectCode :: "last_disconnect option \<Rightarrow> jsval" where
  "disconnectCode ld = js_or (outputStatusCode ld) (errorStatusCode ld)"

text \<open>The guard \<^verbatim>\<open>lastDisconnect && lastDisconnect.error\<close>.\<close>

definition hasDisconnectError :: "conn_update \<Rightarrow> bool" where
  "hasDisconnectError u =
     (case u_lastDisconnect u of None \<Rightarrow> False | Some l \<Rightarrow> ld_error l \<noteq> None)"

text \<open>
  index.js removes the directory of the credentials:
  \<^verbatim>\<open>
  try {
    if (fs.existsSync(AUTH_DIR)) { fs.rmSync(AUTH_DIR, { recursive: true, force: true }); }
  } catch (e) { logger.error(...); }
  \<close>
  The other file removes the single credentials file:
  \<^verbatim>\<open>try { fs.unlinkSync(AUTH_FILE); } catch (e) { logger.error(...); }\<close>
\<close>

definition removeAuthDir :: "io \<Rightarrow> state \<Rightarrow> completion" where
  "removeAuthDir env s = (if existsSync s then rmSync env s else Normal s)"

definition catchAuthDelete :: "completion \<Rightarrow> state" where
  "catchAuthDelete c =
     (case c of Normal s \<Rightarrow> s | Throw e s \<Rightarrow> log Err AuthDeleteFailed s)"

definition deleteAuthDir :: "io \<Rightarrow> state \<Rightarrow> state" where
  "deleteAuthDir env s = catchAuthDelete (removeAuthDir env s)"

definition deleteAuthFile :: "io \<Rightarrow> state \<Rightarrow> state" where
  "deleteAuthFile env s = catchAuthDelete (unlinkSync env s)"

text \<open>
  The classification, with the deletion of the file at hand as a parameter:
  \<^verbatim>\<open>
  if (lastDisconnect && lastDisconnect.error) {
    logger.warn('lastDisconnect:', ...);
    const code = ...;
    if (code === DisconnectReason.badSession || code === DisconnectReason.loggedOut) {
      logger.warn(...); <delete the credentials>; setTimeout(() => start(), 2000);
    } else if (code === DisconnectReason.restartRequired
               || code === DisconnectReason.connectionClosed) {
      logger.info(...); setTimeout(() => start(), 2000);
    } else {
      logger.info(...); setTimeout(() => start(), 5000);
    }
  }
  \<close>
\<close>

definition disconnectBlock ::
  "(io \<Rightarrow> state \<Rightarrow> state) \<Rightarrow> disconnect_reason \<Rightarrow> io \<Rightarrow> conn_update \<Rightarrow> state \<Rightarrow> state" where
  "disconnectBlock deleteAuth dr env u s =
     (if hasDisconnectError u then
        (let s1 = log Warn LastDisconnect s;
             code = disconnectCode (u_lastDisconnect u)
         in
           if strict_eq code (badSession dr) \<or> strict_eq code (loggedOut dr) then
             setTimeout 2000 (deleteAuth env (log Warn SessionInvalid s1))
           else if strict_eq code (restartRequired dr) \<or> strict_eq code (connectionClosed dr) then
             setTimeout 2000 (log Info Restarting s1)
           else
             setTimeout 5000 (log Info Retry5s s1))
      else s)"

subsection \<open>The handler\<close>

text \<open>
  The body of the handler destructures the update first, which throws on null or
  undefined (\<open>None\<close> here), then runs the three blocks in order. The handler is the body
  in a try whose catch only logs.
\<close>

definition handlerBody ::
  "(io \<Rightarrow> state \<Rightarrow> state) \<Rightarrow> disconnect_reason \<Rightarrow> io \<Rightarrow> conn_update option \<Rightarrow> state \<Rightarrow> completion" where
  "handlerBody deleteAuth dr env upd s =
     (case upd of
        None \<Rightarrow> Throw ''TypeError'' s
      | Some u \<Rightarrow>
          Normal (disconnectBlock deleteAuth dr env u (connectionBlock env u (qrBlock env u s))))"

definition handler ::
  "(io \<Rightarrow> state \<Rightarrow> state) \<Rightarrow> disconnect_reason \<Rightarrow> io \<Rightarrow> conn_update option \<Rightarrow> state \<Rightarrow> state" where
  "handler deleteAuth dr env upd s =
     (case handlerBody deleteAuth dr env upd s of
        Normal s' \<Rightarrow> s'
      | Throw e s' \<Rightarrow> log Err HandlerError s')"

text \<open>The handler of index.js (in \<^verbatim>\<open>startSocket\<close>) and of the other file (in \<^verbatim>\<open>startSock\<close>).\<close>

definition startSocket_onUpdate :: "disconnect_reason \<Rightarrow> io \<Rightarrow> conn_update option \<Rightarrow> state \<Rightarrow> state" where
  "startSocket_onUpdate = handler deleteAuthDir"

definition startSock_onUpdate :: "disconnect_reason \<Rightarrow> io \<Rightarrow> conn_update option \<Rightarrow> state \<Rightarrow> state" where
  "startSock_onUpdate = handler deleteAuthFile"

section \<open>The start function\<close>

text \<open>
  What the start function gets from outside. The version lookup is a promise: it
  fulfils with a value, rejects, or stays pending. A fulfilled lookup gives a falsy
  value or an object whose \<^verbatim>\<open>version\<close> is an array or not. Loading the credentials
  and building the socket may throw; the in-memory store may not be exported by the
  library, may throw, or return null or a store with or without \<^verbatim>\<open>bind\<close>, and
  \<^verbatim>\<open>bind\<close> may throw.
\<close>

datatype 'a promise = Fulfilled 'a | Rejected string | Pending

datatype fetched = FetchedFalsy | FetchedObject "nat list option"

datatype store_val = StoreNull | StoreObj bool

datatype store_lib = NotExported | MakeThrows string | MakeReturns store_val

record start_io =
  fetchLatestBaileysVersion :: "fetched promise"
  authStateFailure :: "string option"
  makeWASocket :: "sock_config \<Rightarrow> string option"
  makeInMemoryStore :: store_lib
  storeBindFailure :: "string option"

definition fallbackVersion :: "nat list" where
  "fallbackVersion = [2, 2204, 13]"

text \<open>
  \<^verbatim>\<open>
  let version = [2, 2204, 13];
  try {
    const fetched = await fetchLatestBaileysVersion();
    if (fetched && Array.isArray(fetched.version)) version = fetched.version;
    logger.info(...);
  } catch (err) { logger.warn(...); }
  \<close>
  The lookup is called with no argument and awaited as it is: no timer stands beside
  it. While the promise is pending the function does not go on (\<open>None\<close>).
\<close>

definition resolveVersion :: "fetched promise \<Rightarrow> state \<Rightarrow> (nat list \<times> state) option" where
  "resolveVersion p s =
     (case p of
        Pending \<Rightarrow> None
      | Rejected e \<Rightarrow> Some (fallbackVersion, log Warn VersionFallback s)
      | Fulfilled f \<Rightarrow>
          Some ((case f of
                   FetchedObject (Some v) \<Rightarrow> v
                 | FetchedObject None \<Rightarrow> fallbackVersion
                 | FetchedFalsy \<Rightarrow> fallbackVersion),
                log Info BaileysVersion s))"

text \<open>
  \<^verbatim>\<open>useMultiFileAuthState(AUTH_DIR)\<close> creates the directory when it is missing and loads
  what it holds (the comment of index.js says so); it may throw.
\<close>

definition storedAuth :: "state \<Rightarrow> string" where
  "storedAuth s = (case authStore s of None \<Rightarrow> [] | Some c \<Rightarrow> c)"

definition useMultiFileAuthState :: "start_io \<Rightarrow> state \<Rightarrow> completion" where
  "useMultiFileAuthState sio s =
     (case authStateFailure sio of
        Some e \<Rightarrow> Throw e s
      | None \<Rightarrow> Normal (s\<lparr>authStore := Some (storedAuth s)\<rparr>))"

text \<open>
  The optional store of index.js, in a try of its own:
  \<^verbatim>\<open>
  try {
    if (makeInMemoryStore) {
      store = makeInMemoryStore(...);
      if (store && store.bind) store.bind(sock.ev);
    }
  } catch (e) { logger.debug(...); }
  \<close>
\<close>

definition storeBlock :: "start_io \<Rightarrow> state \<Rightarrow> state" where
  "storeBlock sio s =
     (case makeInMemoryStore sio of
        NotExported \<Rightarrow> s
      | MakeThrows e \<Rightarrow> log Debug StoreNotLoaded s
      | MakeReturns StoreNull \<Rightarrow> s
      | MakeReturns (StoreObj hasBind) \<Rightarrow>
          (if hasBind then
             (case storeBindFailure sio of
                Some e \<Rightarrow> log Debug StoreNotLoaded s
              | None \<Rightarrow> s)
           else s))"

text \<open>
  The body of \<^verbatim>\<open>startSocket\<close> (index.js): \<open>None\<close> while the version lookup is pending,
  \<open>Inl\<close> when a statement throws, \<open>Inr\<close> with the configuration of the socket it returns.
  Every call of \<^verbatim>\<open>makeWASocket\<close> is recorded with its configuration.
\<close>

definition startSocketBody ::
  "start_io \<Rightarrow> state \<Rightarrow> (string \<times> state + sock_config \<times> state) option" where
  "startSocketBody sio s =
     (case resolveVersion (fetchLatestBaileysVersion sio)
             (s\<lparr>connectionStatus := ''fetching-baileys-version''\<rparr>) of
        None \<Rightarrow> None
      | Some (version, s1) \<Rightarrow>
          Some
            (case useMultiFileAuthState sio s1 of
               Throw e s2 \<Rightarrow> Inl (e, s2)
             | Normal s2 \<Rightarrow>
                 (let cfg = \<lparr>cfg_version = version, cfg_auth = storedAuth s2\<rparr>;
                      s3 = s2\<lparr>connectionStatus := ''starting-socket'',
                              socketCalls := socketCalls s2 @ [cfg]\<rparr>
                  in case makeWASocket sio cfg of
                       Some e \<Rightarrow> Inl (e, s3)
                     | None \<Rightarrow> Inr (cfg, log Info SocketInitialised (storeBlock sio s3)))))"

text \<open>
  \<^verbatim>\<open>catch (err) { logger.error(...); setTimeout(() => startSocket(), 5000); }\<close>:
  the function then returns undefined (\<open>None\<close> as its value).
\<close>

definition catchStart ::
  "(string \<times> state + sock_config \<times> state) option \<Rightarrow> (sock_config option \<times> state) option" where
  "catchStart r =
     (case r of
        None \<Rightarrow> None
      | Some (Inl (e, s)) \<Rightarrow> Some (None, setTimeout 5000 (log Err StartError s))
      | Some (Inr (cfg, s)) \<Rightarrow> Some (Some cfg, s))"

definition startSocket :: "start_io \<Rightarrow> state \<Rightarrow> (sock_config option \<times> state) option" where
  "startSocket sio s = catchStart (startSocketBody sio s)"

text \<open>
  The body of \<^verbatim>\<open>startSock\<close> (the other file). The credentials and the store are module
  constants, made before the function is first called; \<^verbatim>\<open>store.bind\<close> is called in
  the outer try, so a throw of it reaches the catch of the function.
\<close>

definition startSockBody ::
  "start_io \<Rightarrow> string \<Rightarrow> store_val \<Rightarrow> state \<Rightarrow> (string \<times> state + sock_config \<times> state) option" where
  "startSockBody sio auth store s =
     (case resolveVersion (fetchLatestBaileysVersion sio)
             (s\<lparr>connectionStatus := ''fetching-baileys-version''\<rparr>) of
        None \<Rightarrow> None
      | Some (version, s1) \<Rightarrow>
          Some
            (let cfg = \<lparr>cfg_version = version, cfg_auth = auth\<rparr>;
                 s2 = s1\<lparr>connectionStatus := ''starting-socket'',
                         socketCalls := socketCalls s1 @ [cfg]\<rparr>
             in case makeWASocket sio cfg of
                  Some e \<Rightarrow> Inl (e, s2)
                | None \<Rightarrow>
                    (if store = StoreObj True then
                       (case storeBindFailure sio of
                          Some e \<Rightarrow> Inl (e, s2)
                        | None \<Rightarrow> Inr (cfg, s2))
                     else Inr (cfg, s2))))"

definition startSock ::
  "start_io \<Rightarrow> string \<Rightarrow> store_val \<Rightarrow> state \<Rightarrow> (sock_config option \<times> state) option" where
  "startSock sio auth store s = catchStart (startSockBody sio auth store s)"

section \<open>The two programs from their first statement\<close>

text \<open>
  A process runs on with a state, waits for a promise that never settles, or ends on
  an exception nothing caught.
\<close>

datatype process = Running state | Waiting | Terminated string

definition initialState :: "string option \<Rightarrow> state" where
  "initialState store =
     \<lparr>latestQRCodeDataUrl = None, qrLastUpdated = None, connectionStatus = ''starting'',
      authStore = store, fsCalls = [], timers = [], logs = [], socketCalls = []\<rparr>"

text \<open>index.js: the module declares its variables and routes, then awaits \<^verbatim>\<open>startSocket()\<close>.\<close>

definition indexMain :: "start_io \<Rightarrow> string option \<Rightarrow> process" where
  "indexMain sio store =
     (case startSocket sio (initialState store) of
        None \<Rightarrow> Waiting
      | Some (r, s) \<Rightarrow> Running s)"

text \<open>
  The other file loads the credentials and makes the store as module statements:
  \<^verbatim>\<open>
  const { state, saveState } = useSingleFileAuthState(AUTH_FILE);
  let store;
  try { store = makeInMemoryStore ? makeInMemoryStore(...) : null; } catch (e) { store = null; }
  \<close>
  The first statement stands in no try: an exception there ends the module, and the
  process with it, before any route or start function exists.
\<close>

definition moduleStore :: "start_io \<Rightarrow> store_val" where
  "moduleStore sio =
     (case makeInMemoryStore sio of
        NotExported \<Rightarrow> StoreNull
      | MakeThrows e \<Rightarrow> StoreNull
      | MakeReturns v \<Rightarrow> v)"

definition part000Main :: "start_io \<Rightarrow> string option \<Rightarrow> process" where
  "part000Main sio store =
     (case authStateFailure sio of
        Some e \<Rightarrow> Terminated e
      | None \<Rightarrow>
          (case startSock sio (storedAuth (initialState store)) (moduleStore sio) (initialState store) of
             None \<Rightarrow> Waiting
           | Some (r, s) \<Rightarrow> Running s))"

section \<open>The HTTP routes\<close>

text \<open>
  \<^verbatim>\<open>GET /\<close> shows the waiting page when \<^verbatim>\<open>!latestQRCodeDataUrl\<close>, else the page with the
  status, the time stamp and the image; \<^verbatim>\<open>GET /health\<close> answers
  \<^verbatim>\<open>{ status: connectionStatus, qrLastUpdated }\<close>.
\<close>

datatype page = WaitingPage string | QrPage string "string option" string

definition rootRoute :: "state \<Rightarrow> page" where
  "rootRoute s =
     (if \<not> truthy_str (latestQRCodeDataUrl s) then WaitingPage (connectionStatus s)
      else QrPage (connectionStatus s) (qrLastUpdated s) (the (latestQRCodeDataUrl s)))"

definition healthRoute :: "state \<Rightarrow> string \<times> string option" where
  "healthRoute s = (connectionStatus s, qrLastUpdated s)"

section \<open>Sequences of events\<close>

text \<open>
  The events of one socket are handled one after the other, each with what the outside
  gives at that moment. The handler is an async function with one await, on the
  encoder; the handling of an update is one step here, as in the concurrency model of
  the specification, where lifecycle events are never handled concurrently.
\<close>

fun run :: "(io \<Rightarrow> conn_update option \<Rightarrow> state \<Rightarrow> state) \<Rightarrow> (io \<times> conn_update option) list \<Rightarrow> state \<Rightarrow> state" where
  "run h [] s = s"
| "run h ((env, upd) # es) s = run h es (h env upd s)"

definition carriesQr :: "conn_update option \<Rightarrow> bool" where
  "carriesQr upd = (case upd of None \<Rightarrow> False | Some u \<Rightarrow> truthy_str (u_qr u))"

section \<open>Concrete inputs\<close>

text \<open>
  The values the network library gives the four members (its published enumeration),
  a stand-in for the QR encoder, and the updates the library emits: a pairing challenge
  alone, a connection state alone, a close with an error that carries a status code in
  its \<^verbatim>\<open>output\<close>, and a close whose \<^verbatim>\<open>lastDisconnect\<close> has no error (the library
  emits \<^verbatim>\<open>{ error, date }\<close> with the error it was ended with, which may be undefined).

  The QR encoder chooses its mode from the text. At the default error correction level
  (M) the largest symbol holds 5596 characters of a text of digits, 3391 of a text over
  the alphanumeric set (digits, capital letters, space and \<^verbatim>\<open>$%*+-./:\<close>), and 2331
  bytes of any other text; beyond that it throws. The stand-in takes a text as one
  segment of the narrowest mode that holds all its characters, which is what the
  encoder does for a text of one kind of character and for every short text; the image
  is stood for by the text behind the prefix.
\<close>

definition baileysReasons :: disconnect_reason where
  "baileysReasons =
     \<lparr>badSession = JNum 500, loggedOut = JNum 401,
      restartRequired = JNum 515, connectionClosed = JNum 428\<rparr>"

definition numericText :: "string \<Rightarrow> bool" where
  "numericText q = list_all (\<lambda>c. c \<in> set ''0123456789'') q"

definition alphanumericText :: "string \<Rightarrow> bool" where
  "alphanumericText q =
     list_all (\<lambda>c. c \<in> set ''0123456789ABCDEFGHIJKLMNOPQRSTUVWXYZ $%*+-./:'') q"

definition capacityFor :: "string \<Rightarrow> nat" where
  "capacityFor q =
     (if numericText q then 5596 else if alphanumericText q then 3391 else 2331)"

definition capacityEncoder :: "string \<Rightarrow> string + string" where
  "capacityEncoder q =
     (if capacityFor q < length q
      then Inl ''The amount of data is too big to be stored in a QR Code''
      else Inr (''data:image/png;base64,'' @ q))"

definition keepAll :: "string \<Rightarrow> string" where
  "keepAll c = c"

definition fineEnv :: io where
  "fineEnv =
     \<lparr>toDataURL = capacityEncoder, qrDate = ''2024-05-01T10:00:00.000Z'',
      openDate = ''2024-05-01T10:00:30.000Z'', fsFailure = None,
      rmResidue = keepAll\<rparr>"

definition readOnlyEnv :: io where
  "readOnlyEnv =
     \<lparr>toDataURL = capacityEncoder, qrDate = ''2024-05-01T10:00:00.000Z'',
      openDate = ''2024-05-01T10:00:30.000Z'', fsFailure = Some ''EACCES'',
      rmResidue = keepAll\<rparr>"

definition qrUpdate :: "string \<Rightarrow> conn_update" where
  "qrUpdate q = \<lparr>u_connection = None, u_lastDisconnect = None, u_qr = Some q\<rparr>"

definition connectionUpdate :: "string \<Rightarrow> conn_update" where
  "connectionUpdate c = \<lparr>u_connection = Some c, u_lastDisconnect = None, u_qr = None\<rparr>"

definition boomWith :: "jsval \<Rightarrow> boom" where
  "boomWith c = \<lparr>err_output = Some \<lparr>out_statusCode = c\<rparr>, err_statusCode = JUndefined\<rparr>"

definition plainError :: boom where
  "plainError = \<lparr>err_output = None, err_statusCode = JUndefined\<rparr>"

definition closeUpdate :: "boom \<Rightarrow> conn_update" where
  "closeUpdate e =
     \<lparr>u_connection = Some ''close'', u_lastDisconnect = Some \<lparr>ld_error = Some e\<rparr>, u_qr = None\<rparr>"

definition closeWithoutError :: conn_update where
  "closeWithoutError =
     \<lparr>u_connection = Some ''close'', u_lastDisconnect = Some \<lparr>ld_error = None\<rparr>, u_qr = None\<rparr>"

definition noSocketFailure :: "sock_config \<Rightarrow> string option" where
  "noSocketFailure cfg = None"

definition socketFailure :: "sock_config \<Rightarrow> string option" where
  "socketFailure cfg = Some ''socket construction failed''"

definition startEnv :: "fetched promise \<Rightarrow> start_io" where
  "startEnv p =
     \<lparr>fetchLatestBaileysVersion = p, authStateFailure = None,
      makeWASocket = noSocketFailure, makeInMemoryStore = NotExported,
      storeBindFailure = None\<rparr>"

definition throwingSocketEnv :: start_io where
  "throwingSocketEnv =
     \<lparr>fetchLatestBaileysVersion = Fulfilled (FetchedObject (Some [2, 3000, 7])),
      authStateFailure = None, makeWASocket = socketFailure,
      makeInMemoryStore = NotExported, storeBindFailure = None\<rparr>"

definition corruptAuthEnv :: start_io where
  "corruptAuthEnv =
     \<lparr>fetchLatestBaileysVersion = Fulfilled (FetchedObject (Some [2, 3000, 7])),
      authStateFailure = Some ''SyntaxError: Unexpected end of JSON input'',
      makeWASocket = noSocketFailure, makeInMemoryStore = NotExported,
      storeBindFailure = None\<rparr>"

definition oversizedChallenge :: string where
  "oversizedChallenge = replicate 2332 (CHR ''a'')"

text \<open>A state in which an earlier challenge is on show.\<close>

definition pairedState :: state where
  "pairedState =
     \<lparr>latestQRCodeDataUrl = Some ''data:image/png;base64,2@abc'',
      qrLastUpdated = Some ''2024-05-01T09:59:40.000Z'', connectionStatus = ''qr-generated'',
      authStore = None, fsCalls = [], timers = [], logs = [(Info, QrGenerated)],
      socketCalls = []\<rparr>"

text \<open>A sequence of updates none of which carries a pairing challenge.\<close>

fun noChallenge :: "(io \<times> conn_update option) list \<Rightarrow> bool" where
  "noChallenge [] = True"
| "noChallenge ((env, upd) # es) = (\<not> carriesQr upd \<and> noChallenge es)"

text \<open>An update whose disconnect error has a reason code outside the four members.\<close>

definition unclassified :: "disconnect_reason \<Rightarrow> conn_update \<Rightarrow> bool" where
  "unclassified dr u =
     (hasDisconnectError u
      \<and> \<not> strict_eq (disconnectCode (u_lastDisconnect u)) (badSession dr)
      \<and> \<not> strict_eq (disconnectCode (u_lastDisconnect u)) (loggedOut dr)
      \<and> \<not> strict_eq (disconnectCode (u_lastDisconnect u)) (restartRequired dr)
      \<and> \<not> strict_eq (disconnectCode (u_lastDisconnect u)) (connectionClosed dr))"

section \<open>Frame lemmas\<close>

lemma log_fields:
  "latestQRCodeDataUrl (log l m s) = latestQRCodeDataUrl s"
  "qrLastUpdated (log l m s) = qrLastUpdated s"
  "connectionStatus (log l m s) = connectionStatus s"
  "authStore (log l m s) = authStore s"
  "fsCalls (log l m s) = fsCalls s"
  "timers (log l m s) = timers s"
  "logs (log l m s) = logs s @ [(l, m)]"
  "socketCalls (log l m s) = socketCalls s"
  by (simp_all add: log_def)

lemma setTimeout_fields:
  "latestQRCodeDataUrl (setTimeout n s) = latestQRCodeDataUrl s"
  "qrLastUpdated (setTimeout n s) = qrLastUpdated s"
  "connectionStatus (setTimeout n s) = connectionStatus s"
  "authStore (setTimeout n s) = authStore s"
  "fsCalls (setTimeout n s) = fsCalls s"
  "timers (setTimeout n s) = timers s @ [n]"
  "logs (setTimeout n s) = logs s"
  "socketCalls (setTimeout n s) = socketCalls s"
  by (simp_all add: setTimeout_def)

lemma qrBlock_frame:
  "authStore (qrBlock env u s) = authStore s"
  "fsCalls (qrBlock env u s) = fsCalls s"
  "timers (qrBlock env u s) = timers s"
  "socketCalls (qrBlock env u s) = socketCalls s"
  by (simp_all add: qrBlock_def log_fields split: sum.splits)

lemma connectionBlock_frame:
  "authStore (connectionBlock env u s) = authStore s"
  "fsCalls (connectionBlock env u s) = fsCalls s"
  "timers (connectionBlock env u s) = timers s"
  "socketCalls (connectionBlock env u s) = socketCalls s"
  by (simp_all add: connectionBlock_def Let_def log_fields)

lemma deleteAuthDir_effect:
  "timers (deleteAuthDir env s) = timers s"
  "fsCalls (deleteAuthDir env s) = fsCalls s @ (if authStore s = None then [] else [CallRmSync])"
  "authStore (deleteAuthDir env s)
     = (if fsFailure env = None then None else map_option (rmResidue env) (authStore s))"
  by (auto simp: deleteAuthDir_def catchAuthDelete_def removeAuthDir_def existsSync_def
        rmSync_def Let_def log_fields split: option.splits)

lemma deleteAuthFile_effect:
  "timers (deleteAuthFile env s) = timers s"
  "fsCalls (deleteAuthFile env s) = fsCalls s @ [CallUnlinkSync]"
  "authStore (deleteAuthFile env s) = (if fsFailure env = None then None else authStore s)"
  by (auto simp: deleteAuthFile_def catchAuthDelete_def unlinkSync_def Let_def log_fields
        split: option.splits)

text \<open>On an update that is an object, the handler is its three blocks in order.\<close>

lemma handler_Some:
  "handler d dr env (Some u) s = disconnectBlock d dr env u (connectionBlock env u (qrBlock env u s))"
  by (simp add: handler_def handlerBody_def)

text \<open>
  An update with no error object passes the guard of the disconnect block nowhere: the
  block does nothing, whatever the connection field says.
\<close>

lemma disconnectBlock_no_error:
  "\<not> hasDisconnectError u \<Longrightarrow> disconnectBlock d dr env u s = s"
  by (simp add: disconnectBlock_def)

section \<open>Disconnect classification\<close>

text \<open>
  Claim C1, as the code has it. For every update that carries a disconnect error whose
  reason code is \<open>badSession\<close> or \<open>loggedOut\<close>, the handler asks the file system for at
  most one removal of the credential store: index.js calls \<^verbatim>\<open>rmSync\<close> once when the
  directory exists and nothing when it is absent, the other file calls \<^verbatim>\<open>unlinkSync\<close>
  once. The store is absent afterwards whenever the removal does not throw; a removal
  that throws is caught, and leaves what the file system left (in index.js the rest of
  the directory, in the other file the file). In every case exactly one restart of the
  start function is scheduled, with the delay 2000 ms.
\<close>

theorem reinitializing_bucket:
  assumes "hasDisconnectError u"
    and "strict_eq (disconnectCode (u_lastDisconnect u)) (badSession dr)
         \<or> strict_eq (disconnectCode (u_lastDisconnect u)) (loggedOut dr)"
  shows "timers (startSocket_onUpdate dr env (Some u) s) = timers s @ [2000]
       \<and> fsCalls (startSocket_onUpdate dr env (Some u) s)
           = fsCalls s @ (if authStore s = None then [] else [CallRmSync])
       \<and> authStore (startSocket_onUpdate dr env (Some u) s)
           = (if fsFailure env = None then None else map_option (rmResidue env) (authStore s))
       \<and> timers (startSock_onUpdate dr env (Some u) s) = timers s @ [2000]
       \<and> fsCalls (startSock_onUpdate dr env (Some u) s) = fsCalls s @ [CallUnlinkSync]
       \<and> authStore (startSock_onUpdate dr env (Some u) s)
           = (if fsFailure env = None then None else authStore s)"
  using assms
  by (simp add: startSocket_onUpdate_def startSock_onUpdate_def handler_Some disconnectBlock_def
      Let_def setTimeout_fields log_fields deleteAuthDir_effect deleteAuthFile_effect
      qrBlock_frame connectionBlock_frame)


section \<open>The concrete inputs, evaluated\<close>

lemma closeUpdate_hasError: "hasDisconnectError (closeUpdate e)"
  by (simp add: hasDisconnectError_def closeUpdate_def)

lemma closeUpdate_boom_code: "truthy c \<Longrightarrow> disconnectCode (u_lastDisconnect (closeUpdate (boomWith c))) = c"
  by (simp add: disconnectCode_def js_or_def outputStatusCode_def closeUpdate_def boomWith_def)

lemma closeUpdate_plain_code: "disconnectCode (u_lastDisconnect (closeUpdate plainError)) = JUndefined"
  by (simp add: disconnectCode_def js_or_def outputStatusCode_def errorStatusCode_def
      closeUpdate_def plainError_def)

lemma initialState_fields:
  "latestQRCodeDataUrl (initialState st) = None"
  "qrLastUpdated (initialState st) = None"
  "connectionStatus (initialState st) = ''starting''"
  "authStore (initialState st) = st"
  "fsCalls (initialState st) = []"
  "timers (initialState st) = []"
  "logs (initialState st) = []"
  "socketCalls (initialState st) = []"
  by (simp_all add: initialState_def)

text \<open>A logged-out close (status code 401) on a store that exists.\<close>

theorem reinitializing_bucket_witness:
  "hasDisconnectError (closeUpdate (boomWith (JNum 401)))
   \<and> strict_eq (disconnectCode (u_lastDisconnect (closeUpdate (boomWith (JNum 401)))))
         (loggedOut baileysReasons)
   \<and> timers (startSocket_onUpdate baileysReasons fineEnv (Some (closeUpdate (boomWith (JNum 401))))
         (initialState (Some ''creds''))) = [2000]
   \<and> fsCalls (startSocket_onUpdate baileysReasons fineEnv (Some (closeUpdate (boomWith (JNum 401))))
         (initialState (Some ''creds''))) = [CallRmSync]
   \<and> authStore (startSocket_onUpdate baileysReasons fineEnv (Some (closeUpdate (boomWith (JNum 401))))
         (initialState (Some ''creds''))) = None
   \<and> timers (startSock_onUpdate baileysReasons fineEnv (Some (closeUpdate (boomWith (JNum 401))))
         (initialState (Some ''creds''))) = [2000]
   \<and> fsCalls (startSock_onUpdate baileysReasons fineEnv (Some (closeUpdate (boomWith (JNum 401))))
         (initialState (Some ''creds''))) = [CallUnlinkSync]
   \<and> authStore (startSock_onUpdate baileysReasons fineEnv (Some (closeUpdate (boomWith (JNum 401))))
         (initialState (Some ''creds''))) = None"
proof -
  have h1: "hasDisconnectError (closeUpdate (boomWith (JNum 401)))"
    by (rule closeUpdate_hasError)
  have h2: "strict_eq (disconnectCode (u_lastDisconnect (closeUpdate (boomWith (JNum 401)))))
         (loggedOut baileysReasons)"
    by (simp add: closeUpdate_boom_code strict_eq_def baileysReasons_def)
  show ?thesis
    using h1 h2
      reinitializing_bucket [OF h1 disjI2 [OF h2], of fineEnv "initialState (Some ''creds'')"]
    by (simp add: initialState_fields fineEnv_def)
qed

text \<open>
  The claim as written says the store is deleted, exactly once, at every such
  disconnect. It is not when the file system refuses the removal (the catch beside the
  call logs and goes on, in either file), and index.js asks for no removal at all when
  the directory is already absent:
\<close>

theorem refused_removal_leaves_store:
  "authStore (startSocket_onUpdate baileysReasons readOnlyEnv
      (Some (closeUpdate (boomWith (JNum 401)))) (initialState (Some ''creds''))) = Some ''creds''
   \<and> authStore (startSock_onUpdate baileysReasons readOnlyEnv
      (Some (closeUpdate (boomWith (JNum 401)))) (initialState (Some ''creds''))) = Some ''creds''
   \<and> timers (startSocket_onUpdate baileysReasons readOnlyEnv
      (Some (closeUpdate (boomWith (JNum 401)))) (initialState (Some ''creds''))) = [2000]
   \<and> fsCalls (startSocket_onUpdate baileysReasons fineEnv
      (Some (closeUpdate (boomWith (JNum 401)))) (initialState None)) = []"
proof -
  have code: "strict_eq (disconnectCode (u_lastDisconnect (closeUpdate (boomWith (JNum 401)))))
         (loggedOut baileysReasons)"
    by (simp add: closeUpdate_boom_code strict_eq_def baileysReasons_def)
  have ro: "fsFailure readOnlyEnv = Some ''EACCES''" "rmResidue readOnlyEnv = keepAll"
    by (simp_all add: readOnlyEnv_def)
  show ?thesis
    using code ro closeUpdate_hasError [of "boomWith (JNum 401)"]
    by (simp add: startSocket_onUpdate_def startSock_onUpdate_def handler_Some disconnectBlock_def
        Let_def setTimeout_fields log_fields deleteAuthDir_effect deleteAuthFile_effect
        qrBlock_frame connectionBlock_frame initialState_fields keepAll_def)
qed

text \<open>
  Claim C2. For every update that carries a disconnect error whose reason code is
  \<open>restartRequired\<close> or \<open>connectionClosed\<close>, the credential store is as before, the file
  system is asked nothing, and exactly one restart is scheduled, with the delay
  2000 ms. The members of the enumeration differ from each other, as the members of an
  enumeration do: the first branch of the code tests the other two members before.
\<close>

theorem restarting_bucket:
  assumes "hasDisconnectError u"
    and "strict_eq (disconnectCode (u_lastDisconnect u)) (restartRequired dr)
         \<or> strict_eq (disconnectCode (u_lastDisconnect u)) (connectionClosed dr)"
    and "distinct [badSession dr, loggedOut dr, restartRequired dr, connectionClosed dr]"
  shows "timers (startSocket_onUpdate dr env (Some u) s) = timers s @ [2000]
       \<and> authStore (startSocket_onUpdate dr env (Some u) s) = authStore s
       \<and> fsCalls (startSocket_onUpdate dr env (Some u) s) = fsCalls s
       \<and> timers (startSock_onUpdate dr env (Some u) s) = timers s @ [2000]
       \<and> authStore (startSock_onUpdate dr env (Some u) s) = authStore s
       \<and> fsCalls (startSock_onUpdate dr env (Some u) s) = fsCalls s"
proof -
  from assms(2,3)
  have "\<not> strict_eq (disconnectCode (u_lastDisconnect u)) (badSession dr)"
    and "\<not> strict_eq (disconnectCode (u_lastDisconnect u)) (loggedOut dr)"
    by (auto simp: strict_eq_def)
  with assms(1,2) show ?thesis
    by (simp add: startSocket_onUpdate_def startSock_onUpdate_def handler_Some disconnectBlock_def
        Let_def setTimeout_fields log_fields qrBlock_frame connectionBlock_frame)
qed

text \<open>A close with status code 515, restart required.\<close>

theorem restarting_bucket_witness:
  "hasDisconnectError (closeUpdate (boomWith (JNum 515)))
   \<and> strict_eq (disconnectCode (u_lastDisconnect (closeUpdate (boomWith (JNum 515)))))
         (restartRequired baileysReasons)
   \<and> distinct [badSession baileysReasons, loggedOut baileysReasons,
         restartRequired baileysReasons, connectionClosed baileysReasons]
   \<and> timers (startSocket_onUpdate baileysReasons fineEnv (Some (closeUpdate (boomWith (JNum 515))))
         (initialState (Some ''creds''))) = [2000]
   \<and> authStore (startSocket_onUpdate baileysReasons fineEnv (Some (closeUpdate (boomWith (JNum 515))))
         (initialState (Some ''creds''))) = Some ''creds''
   \<and> fsCalls (startSocket_onUpdate baileysReasons fineEnv (Some (closeUpdate (boomWith (JNum 515))))
         (initialState (Some ''creds''))) = []
   \<and> timers (startSock_onUpdate baileysReasons fineEnv (Some (closeUpdate (boomWith (JNum 515))))
         (initialState (Some ''creds''))) = [2000]
   \<and> authStore (startSock_onUpdate baileysReasons fineEnv (Some (closeUpdate (boomWith (JNum 515))))
         (initialState (Some ''creds''))) = Some ''creds''
   \<and> fsCalls (startSock_onUpdate baileysReasons fineEnv (Some (closeUpdate (boomWith (JNum 515))))
         (initialState (Some ''creds''))) = []"
proof -
  have h1: "hasDisconnectError (closeUpdate (boomWith (JNum 515)))"
    by (rule closeUpdate_hasError)
  have h2: "strict_eq (disconnectCode (u_lastDisconnect (closeUpdate (boomWith (JNum 515)))))
         (restartRequired baileysReasons)"
    by (simp add: closeUpdate_boom_code strict_eq_def baileysReasons_def)
  have h3: "distinct [badSession baileysReasons, loggedOut baileysReasons,
         restartRequired baileysReasons, connectionClosed baileysReasons]"
    by (simp add: baileysReasons_def)
  show ?thesis
    using h1 h2 h3
      restarting_bucket [OF h1 disjI1 [OF h2] h3, of fineEnv "initialState (Some ''creds'')"]
    by (simp add: initialState_fields)
qed

text \<open>
  Claim C3, as the code has it. For every update that carries a disconnect error (the
  guard \<^verbatim>\<open>lastDisconnect && lastDisconnect.error\<close>) whose reason code is none of the four
  members (whatever JavaScript value it is: undefined when the error has no status
  code, null, a number the program does not know, a string), the credential store is as
  before, the file system is asked nothing, and exactly one restart is scheduled, with
  the delay 5000 ms.
\<close>

theorem retry_waiting_bucket:
  assumes "hasDisconnectError u"
    and "\<not> strict_eq (disconnectCode (u_lastDisconnect u)) (badSession dr)"
    and "\<not> strict_eq (disconnectCode (u_lastDisconnect u)) (loggedOut dr)"
    and "\<not> strict_eq (disconnectCode (u_lastDisconnect u)) (restartRequired dr)"
    and "\<not> strict_eq (disconnectCode (u_lastDisconnect u)) (connectionClosed dr)"
  shows "timers (startSocket_onUpdate dr env (Some u) s) = timers s @ [5000]
       \<and> authStore (startSocket_onUpdate dr env (Some u) s) = authStore s
       \<and> fsCalls (startSocket_onUpdate dr env (Some u) s) = fsCalls s
       \<and> timers (startSock_onUpdate dr env (Some u) s) = timers s @ [5000]
       \<and> authStore (startSock_onUpdate dr env (Some u) s) = authStore s
       \<and> fsCalls (startSock_onUpdate dr env (Some u) s) = fsCalls s"
  using assms
  by (simp add: startSocket_onUpdate_def startSock_onUpdate_def handler_Some disconnectBlock_def
      Let_def setTimeout_fields log_fields qrBlock_frame connectionBlock_frame)

text \<open>An error with no status code at all: the reason code is undefined.\<close>

theorem retry_waiting_bucket_witness:
  "hasDisconnectError (closeUpdate plainError)
   \<and> disconnectCode (u_lastDisconnect (closeUpdate plainError)) = JUndefined
   \<and> \<not> strict_eq JUndefined (badSession baileysReasons)
   \<and> \<not> strict_eq JUndefined (loggedOut baileysReasons)
   \<and> \<not> strict_eq JUndefined (restartRequired baileysReasons)
   \<and> \<not> strict_eq JUndefined (connectionClosed baileysReasons)
   \<and> timers (startSocket_onUpdate baileysReasons fineEnv (Some (closeUpdate plainError))
         (initialState (Some ''creds''))) = [5000]
   \<and> authStore (startSocket_onUpdate baileysReasons fineEnv (Some (closeUpdate plainError))
         (initialState (Some ''creds''))) = Some ''creds''
   \<and> fsCalls (startSocket_onUpdate baileysReasons fineEnv (Some (closeUpdate plainError))
         (initialState (Some ''creds''))) = []
   \<and> timers (startSock_onUpdate baileysReasons fineEnv (Some (closeUpdate plainError))
         (initialState (Some ''creds''))) = [5000]
   \<and> authStore (startSock_onUpdate baileysReasons fineEnv (Some (closeUpdate plainError))
         (initialState (Some ''creds''))) = Some ''creds''
   \<and> fsCalls (startSock_onUpdate baileysReasons fineEnv (Some (closeUpdate plainError))
         (initialState (Some ''creds''))) = []"
proof -
  have h1: "hasDisconnectError (closeUpdate plainError)"
    by (rule closeUpdate_hasError)
  have c: "disconnectCode (u_lastDisconnect (closeUpdate plainError)) = JUndefined"
    by (rule closeUpdate_plain_code)
  have n: "\<not> strict_eq JUndefined (badSession baileysReasons)"
    "\<not> strict_eq JUndefined (loggedOut baileysReasons)"
    "\<not> strict_eq JUndefined (restartRequired baileysReasons)"
    "\<not> strict_eq JUndefined (connectionClosed baileysReasons)"
    by (simp_all add: strict_eq_def baileysReasons_def)
  show ?thesis
    using h1 c n
      retry_waiting_bucket [of "closeUpdate plainError" baileysReasons fineEnv
        "initialState (Some ''creds'')"]
    by (simp add: initialState_fields)
qed

text \<open>
  The claim as written counts a disconnect with an absent reason among those that are
  retried after the long delay. When the reason is absent because \<^verbatim>\<open>lastDisconnect\<close>
  has no error, the guard of the disconnect block skips the classification: the status
  becomes \<open>close\<close> and no restart is scheduled, in either file.
\<close>

theorem close_without_error_schedules_nothing:
  "u_connection closeWithoutError = Some ''close''
   \<and> disconnectCode (u_lastDisconnect closeWithoutError) = JUndefined
   \<and> timers (startSocket_onUpdate baileysReasons fineEnv (Some closeWithoutError)
        (initialState (Some ''creds''))) = []
   \<and> connectionStatus (startSocket_onUpdate baileysReasons fineEnv (Some closeWithoutError)
        (initialState (Some ''creds''))) = ''close''
   \<and> timers (startSock_onUpdate baileysReasons fineEnv (Some closeWithoutError)
        (initialState (Some ''creds''))) = []
   \<and> connectionStatus (startSock_onUpdate baileysReasons fineEnv (Some closeWithoutError)
        (initialState (Some ''creds''))) = ''close''"
proof -
  have g: "\<not> hasDisconnectError closeWithoutError"
    by (simp add: hasDisconnectError_def closeWithoutError_def)
  have c: "disconnectCode (u_lastDisconnect closeWithoutError) = JUndefined"
    by (simp add: disconnectCode_def js_or_def outputStatusCode_def errorStatusCode_def
        closeWithoutError_def)
  have q: "qrBlock fineEnv closeWithoutError (initialState (Some ''creds''))
             = initialState (Some ''creds'')"
    by (simp add: qrBlock_def closeWithoutError_def truthy_str_def)
  have k: "connectionStatus (connectionBlock fineEnv closeWithoutError (initialState (Some ''creds'')))
             = ''close''"
    by (simp add: connectionBlock_def closeWithoutError_def truthy_str_def Let_def log_fields)
  have u: "u_connection closeWithoutError = Some ''close''"
    by (simp add: closeWithoutError_def)
  show ?thesis
    using g c q k u
    by (simp add: startSocket_onUpdate_def startSock_onUpdate_def handler_Some
        disconnectBlock_no_error connectionBlock_frame initialState_fields)
qed

section \<open>What the blocks do to the published variables\<close>

lemma qrBlock_no_qr: "\<not> truthy_str (u_qr u) \<Longrightarrow> qrBlock env u s = s"
  by (simp add: qrBlock_def)

lemma qrBlock_encoded:
  "truthy_str (u_qr u) \<Longrightarrow> toDataURL env (the (u_qr u)) = Inr d \<Longrightarrow>
   qrBlock env u s =
     log Info QrGenerated
       (s\<lparr>latestQRCodeDataUrl := Some d, qrLastUpdated := Some (qrDate env),
          connectionStatus := ''qr-generated''\<rparr>)"
  by (simp add: qrBlock_def)

lemma qrBlock_failed:
  "truthy_str (u_qr u) \<Longrightarrow> toDataURL env (the (u_qr u)) = Inl e \<Longrightarrow>
   qrBlock env u s = log Err QrError s"
  by (simp add: qrBlock_def)

lemma connectionBlock_absent: "\<not> truthy_str (u_connection u) \<Longrightarrow> connectionBlock env u s = s"
  by (simp add: connectionBlock_def)

lemma connectionBlock_open:
  "u_connection u = Some ''open'' \<Longrightarrow>
   connectionBlock env u s =
     log Info SessionOpen
       ((log Info ConnectionUpdate (s\<lparr>connectionStatus := ''open''\<rparr>))
          \<lparr>latestQRCodeDataUrl := None, qrLastUpdated := Some (openDate env)\<rparr>)"
  by (simp add: connectionBlock_def truthy_str_def Let_def)

lemma connectionBlock_not_open:
  "u_connection u \<noteq> Some ''open'' \<Longrightarrow>
   latestQRCodeDataUrl (connectionBlock env u s) = latestQRCodeDataUrl s
   \<and> qrLastUpdated (connectionBlock env u s) = qrLastUpdated s"
  by (simp add: connectionBlock_def Let_def log_fields)

lemma catchAuthDelete_view:
  "latestQRCodeDataUrl (catchAuthDelete c) = latestQRCodeDataUrl (case c of Normal s \<Rightarrow> s | Throw e s \<Rightarrow> s)"
  "qrLastUpdated (catchAuthDelete c) = qrLastUpdated (case c of Normal s \<Rightarrow> s | Throw e s \<Rightarrow> s)"
  "connectionStatus (catchAuthDelete c) = connectionStatus (case c of Normal s \<Rightarrow> s | Throw e s \<Rightarrow> s)"
  by (simp_all add: catchAuthDelete_def log_fields split: completion.splits)

lemma deleteAuthDir_view:
  "latestQRCodeDataUrl (deleteAuthDir env s) = latestQRCodeDataUrl s"
  "qrLastUpdated (deleteAuthDir env s) = qrLastUpdated s"
  "connectionStatus (deleteAuthDir env s) = connectionStatus s"
  by (simp_all add: deleteAuthDir_def catchAuthDelete_view removeAuthDir_def rmSync_def Let_def
      split: option.splits)

lemma deleteAuthFile_view:
  "latestQRCodeDataUrl (deleteAuthFile env s) = latestQRCodeDataUrl s"
  "qrLastUpdated (deleteAuthFile env s) = qrLastUpdated s"
  "connectionStatus (deleteAuthFile env s) = connectionStatus s"
  by (simp_all add: deleteAuthFile_def catchAuthDelete_view unlinkSync_def Let_def
      split: option.splits)

text \<open>The disconnect block changes none of the three variables the routes read.\<close>

lemma disconnectBlock_view:
  assumes "\<And>env s. latestQRCodeDataUrl (d env s) = latestQRCodeDataUrl s"
    and "\<And>env s. qrLastUpdated (d env s) = qrLastUpdated s"
    and "\<And>env s. connectionStatus (d env s) = connectionStatus s"
  shows "latestQRCodeDataUrl (disconnectBlock d dr env u s) = latestQRCodeDataUrl s"
    and "qrLastUpdated (disconnectBlock d dr env u s) = qrLastUpdated s"
    and "connectionStatus (disconnectBlock d dr env u s) = connectionStatus s"
  by (simp_all add: disconnectBlock_def Let_def setTimeout_fields log_fields assms)

lemmas disconnectBlock_dir_view = disconnectBlock_view [of deleteAuthDir, OF deleteAuthDir_view]
lemmas disconnectBlock_file_view = disconnectBlock_view [of deleteAuthFile, OF deleteAuthFile_view]



section \<open>The pairing snapshot\<close>

text \<open>
  Claim C10. When an update reports the connection \<open>open\<close>, the handler of either file
  sets the pairing image to null and overwrites the pairing time stamp with the reading
  of the clock, a value that is not null. What the routes publish then: \<^verbatim>\<open>/health\<close>
  answers the status \<open>open\<close> with that time stamp, while \<^verbatim>\<open>/\<close> has no image to show and
  serves the waiting page.
\<close>

theorem open_clears_image_keeps_timestamp:
  assumes "u_connection u = Some ''open''"
  shows "latestQRCodeDataUrl (startSocket_onUpdate dr env (Some u) s) = None
       \<and> qrLastUpdated (startSocket_onUpdate dr env (Some u) s) = Some (openDate env)
       \<and> healthRoute (startSocket_onUpdate dr env (Some u) s) = (''open'', Some (openDate env))
       \<and> rootRoute (startSocket_onUpdate dr env (Some u) s) = WaitingPage ''open''
       \<and> latestQRCodeDataUrl (startSock_onUpdate dr env (Some u) s) = None
       \<and> qrLastUpdated (startSock_onUpdate dr env (Some u) s) = Some (openDate env)
       \<and> healthRoute (startSock_onUpdate dr env (Some u) s) = (''open'', Some (openDate env))
       \<and> rootRoute (startSock_onUpdate dr env (Some u) s) = WaitingPage ''open''"
  using assms
  by (simp add: startSocket_onUpdate_def startSock_onUpdate_def handler_Some
      disconnectBlock_dir_view disconnectBlock_file_view connectionBlock_open log_fields
      healthRoute_def rootRoute_def truthy_str_def)

theorem open_clears_image_keeps_timestamp_witness:
  "u_connection (connectionUpdate ''open'') = Some ''open''
   \<and> latestQRCodeDataUrl (startSocket_onUpdate baileysReasons fineEnv
        (Some (connectionUpdate ''open'')) (initialState None)) = None
   \<and> qrLastUpdated (startSocket_onUpdate baileysReasons fineEnv
        (Some (connectionUpdate ''open'')) (initialState None)) = Some ''2024-05-01T10:00:30.000Z''
   \<and> healthRoute (startSocket_onUpdate baileysReasons fineEnv
        (Some (connectionUpdate ''open'')) (initialState None))
        = (''open'', Some ''2024-05-01T10:00:30.000Z'')
   \<and> healthRoute (startSock_onUpdate baileysReasons fineEnv
        (Some (connectionUpdate ''open'')) (initialState None))
        = (''open'', Some ''2024-05-01T10:00:30.000Z'')"
proof -
  have h: "u_connection (connectionUpdate ''open'') = Some ''open''"
    by (simp add: connectionUpdate_def)
  show ?thesis
    using h open_clears_image_keeps_timestamp [OF h, of baileysReasons fineEnv "initialState None"]
    by (simp add: fineEnv_def)
qed

text \<open>
  Claim C9. When the encoder throws on a pairing challenge, the QR block catches the
  error and does nothing but log it at error level: the image, its time stamp and the
  status are what they were, so the status is not set to \<open>qr-generated\<close>. An
  update with a challenge and no connection field (the network library reports a
  challenge alone) leaves the three variables as they were through the whole handler,
  in either file.
\<close>

theorem qr_encoding_failure_keeps_snapshot:
  assumes "truthy_str (u_qr u)" and "toDataURL env (the (u_qr u)) = Inl e"
  shows "qrBlock env u s = log Err QrError s
       \<and> latestQRCodeDataUrl (qrBlock env u s) = latestQRCodeDataUrl s
       \<and> qrLastUpdated (qrBlock env u s) = qrLastUpdated s
       \<and> connectionStatus (qrBlock env u s) = connectionStatus s
       \<and> logs (qrBlock env u s) = logs s @ [(Err, QrError)]
       \<and> (\<not> truthy_str (u_connection u) \<longrightarrow>
            latestQRCodeDataUrl (startSocket_onUpdate dr env (Some u) s) = latestQRCodeDataUrl s
          \<and> qrLastUpdated (startSocket_onUpdate dr env (Some u) s) = qrLastUpdated s
          \<and> connectionStatus (startSocket_onUpdate dr env (Some u) s) = connectionStatus s
          \<and> latestQRCodeDataUrl (startSock_onUpdate dr env (Some u) s) = latestQRCodeDataUrl s
          \<and> qrLastUpdated (startSock_onUpdate dr env (Some u) s) = qrLastUpdated s
          \<and> connectionStatus (startSock_onUpdate dr env (Some u) s) = connectionStatus s)"
  using assms
  by (simp add: startSocket_onUpdate_def startSock_onUpdate_def handler_Some
      disconnectBlock_dir_view disconnectBlock_file_view connectionBlock_absent
      qrBlock_failed log_fields)

text \<open>
  A challenge of 2332 lower-case letters, one more than the encoder holds in byte mode,
  after an earlier one was shown.
\<close>

lemma oversized_capacity: "capacityFor oversizedChallenge = 2331"
  by (simp add: capacityFor_def numericText_def alphanumericText_def oversizedChallenge_def
      list_all_iff)

lemma oversized_fails:
  "capacityEncoder oversizedChallenge
     = Inl ''The amount of data is too big to be stored in a QR Code''"
  by (simp add: capacityEncoder_def oversized_capacity) (simp add: oversizedChallenge_def)

lemma oversized_truthy: "truthy_str (Some oversizedChallenge)"
  by (simp add: truthy_str_def oversizedChallenge_def)

theorem qr_encoding_failure_keeps_snapshot_witness:
  "truthy_str (u_qr (qrUpdate oversizedChallenge))
   \<and> toDataURL fineEnv (the (u_qr (qrUpdate oversizedChallenge)))
       = Inl ''The amount of data is too big to be stored in a QR Code''
   \<and> \<not> truthy_str (u_connection (qrUpdate oversizedChallenge))
   \<and> latestQRCodeDataUrl (startSocket_onUpdate baileysReasons fineEnv
        (Some (qrUpdate oversizedChallenge)) pairedState) = Some ''data:image/png;base64,2@abc''
   \<and> qrLastUpdated (startSocket_onUpdate baileysReasons fineEnv
        (Some (qrUpdate oversizedChallenge)) pairedState) = Some ''2024-05-01T09:59:40.000Z''
   \<and> connectionStatus (startSocket_onUpdate baileysReasons fineEnv
        (Some (qrUpdate oversizedChallenge)) pairedState) = ''qr-generated''
   \<and> logs (qrBlock fineEnv (qrUpdate oversizedChallenge) pairedState)
        = [(Info, QrGenerated), (Err, QrError)]"
proof -
  have h1: "truthy_str (u_qr (qrUpdate oversizedChallenge))"
    by (simp add: qrUpdate_def oversized_truthy)
  have h2: "toDataURL fineEnv (the (u_qr (qrUpdate oversizedChallenge)))
       = Inl ''The amount of data is too big to be stored in a QR Code''"
    by (simp add: qrUpdate_def fineEnv_def oversized_fails)
  have h3: "\<not> truthy_str (u_connection (qrUpdate oversizedChallenge))"
    by (simp add: qrUpdate_def truthy_str_def)
  show ?thesis
    using h1 h2 h3
      qr_encoding_failure_keeps_snapshot [OF h1 h2, of pairedState baileysReasons]
    by (simp add: pairedState_def log_fields)
qed

text \<open>While no update carries a challenge, the image stays null.\<close>

lemma connectionBlock_image:
  "latestQRCodeDataUrl (connectionBlock env u s)
     = (if u_connection u = Some ''open'' then None else latestQRCodeDataUrl s)"
  by (simp add: connectionBlock_def Let_def log_fields truthy_str_def)

lemma handler_null_update: "handler d dr env None s = log Err HandlerError s"
  by (simp add: handler_def handlerBody_def)

lemma startSocket_onUpdate_keeps_null:
  assumes "\<not> carriesQr upd" and "latestQRCodeDataUrl s = None"
  shows "latestQRCodeDataUrl (startSocket_onUpdate dr env upd s) = None"
proof (cases upd)
  case None
  with assms(2) show ?thesis
    by (simp add: startSocket_onUpdate_def handler_null_update log_fields)
next
  case (Some u)
  with assms have "qrBlock env u s = s"
    by (simp add: carriesQr_def qrBlock_no_qr)
  with Some assms(2) show ?thesis
    by (simp add: startSocket_onUpdate_def handler_Some disconnectBlock_dir_view
        connectionBlock_image)
qed

lemma startSock_onUpdate_keeps_null:
  assumes "\<not> carriesQr upd" and "latestQRCodeDataUrl s = None"
  shows "latestQRCodeDataUrl (startSock_onUpdate dr env upd s) = None"
proof (cases upd)
  case None
  with assms(2) show ?thesis
    by (simp add: startSock_onUpdate_def handler_null_update log_fields)
next
  case (Some u)
  with assms have "qrBlock env u s = s"
    by (simp add: carriesQr_def qrBlock_no_qr)
  with Some assms(2) show ?thesis
    by (simp add: startSock_onUpdate_def handler_Some disconnectBlock_file_view
        connectionBlock_image)
qed

lemma run_keeps_null:
  assumes step: "\<And>env upd s. \<not> carriesQr upd \<Longrightarrow> latestQRCodeDataUrl s = None
                   \<Longrightarrow> latestQRCodeDataUrl (h env upd s) = None"
  shows "noChallenge es \<Longrightarrow> latestQRCodeDataUrl s = None
         \<Longrightarrow> latestQRCodeDataUrl (run h es s) = None"
proof (induction es arbitrary: s)
  case Nil
  then show ?case by simp
next
  case (Cons e es)
  obtain env upd where e: "e = (env, upd)" by (cases e)
  from Cons.prems e have "\<not> carriesQr upd" and rest: "noChallenge es" by simp_all
  with Cons.prems(2) have "latestQRCodeDataUrl (h env upd s) = None" by (simp add: step)
  with rest have "latestQRCodeDataUrl (run h es (h env upd s)) = None" by (rule Cons.IH)
  with e show ?case by simp
qed

lemma challenge_shown:
  assumes "truthy_str (u_qr u)" and "toDataURL env (the (u_qr u)) = Inr d"
    and "u_connection u \<noteq> Some ''open''"
  shows "latestQRCodeDataUrl (connectionBlock env u (qrBlock env u s)) = Some d"
    and "qrLastUpdated (connectionBlock env u (qrBlock env u s)) = Some (qrDate env)"
  using assms by (simp_all add: connectionBlock_not_open qrBlock_encoded log_fields)

text \<open>
  Claim C4, as the code has it. The pairing image is null in the initial state and stays
  null over every sequence of updates none of which carries a challenge. After an update
  with a challenge that the encoder accepts, and that does not report \<open>open\<close> in the same
  update, the image is exactly the encoding of that challenge, whatever was there
  before, and the time stamp is the clock reading of the QR block: one slot,
  overwritten. After an update that reports \<open>open\<close> the image is null. (The time stamp is
  not cleared then: claim C10.) Each statement about one update is about the state when
  the handler of that update completes.
\<close>

theorem pairing_image_single_slot:
  "latestQRCodeDataUrl (initialState st) = None
   \<and> (noChallenge es \<longrightarrow>
         latestQRCodeDataUrl (run (startSocket_onUpdate dr) es (initialState st)) = None
       \<and> latestQRCodeDataUrl (run (startSock_onUpdate dr) es (initialState st)) = None)
   \<and> (truthy_str (u_qr u) \<and> toDataURL env (the (u_qr u)) = Inr d
        \<and> u_connection u \<noteq> Some ''open'' \<longrightarrow>
         latestQRCodeDataUrl (startSocket_onUpdate dr env (Some u) s) = Some d
       \<and> qrLastUpdated (startSocket_onUpdate dr env (Some u) s) = Some (qrDate env)
       \<and> latestQRCodeDataUrl (startSock_onUpdate dr env (Some u) s) = Some d
       \<and> qrLastUpdated (startSock_onUpdate dr env (Some u) s) = Some (qrDate env))
   \<and> (u_connection v = Some ''open'' \<longrightarrow>
         latestQRCodeDataUrl (startSocket_onUpdate dr env (Some v) s) = None
       \<and> latestQRCodeDataUrl (startSock_onUpdate dr env (Some v) s) = None)"
proof -
  have init: "latestQRCodeDataUrl (initialState st) = None"
    by (simp add: initialState_fields)
  have before: "latestQRCodeDataUrl (run (startSocket_onUpdate dr) es (initialState st)) = None"
    "latestQRCodeDataUrl (run (startSock_onUpdate dr) es (initialState st)) = None"
    if "noChallenge es"
    using that init
    by (simp_all add: run_keeps_null startSocket_onUpdate_keeps_null startSock_onUpdate_keeps_null)
  have shown: "latestQRCodeDataUrl (startSocket_onUpdate dr env (Some u) s) = Some d"
    "qrLastUpdated (startSocket_onUpdate dr env (Some u) s) = Some (qrDate env)"
    "latestQRCodeDataUrl (startSock_onUpdate dr env (Some u) s) = Some d"
    "qrLastUpdated (startSock_onUpdate dr env (Some u) s) = Some (qrDate env)"
    if "truthy_str (u_qr u)" "toDataURL env (the (u_qr u)) = Inr d" "u_connection u \<noteq> Some ''open''"
    using that
    by (simp_all add: startSocket_onUpdate_def startSock_onUpdate_def handler_Some
        disconnectBlock_dir_view disconnectBlock_file_view challenge_shown)
  have cleared: "latestQRCodeDataUrl (startSocket_onUpdate dr env (Some v) s) = None"
    "latestQRCodeDataUrl (startSock_onUpdate dr env (Some v) s) = None"
    if "u_connection v = Some ''open''"
    using that
    by (simp_all add: startSocket_onUpdate_def startSock_onUpdate_def handler_Some
        disconnectBlock_dir_view disconnectBlock_file_view connectionBlock_image)
  from init before shown cleared show ?thesis by blast
qed

text \<open>
  The claim as written says the snapshot holds the most recently issued challenge after
  each pairing challenge. It does not when the encoder throws: the catch of the QR
  block leaves the earlier image on show. Two challenges in a row, the second of 2332
  lower-case letters, which the encoder can only take as bytes and which is one byte
  more than its largest symbol holds, in either file:
\<close>

lemma short_challenge_encodes:
  "length q \<le> 2331 \<Longrightarrow> toDataURL fineEnv q = Inr (''data:image/png;base64,'' @ q)"
  by (simp add: fineEnv_def capacityEncoder_def capacityFor_def)

theorem newest_challenge_not_shown:
  "carriesQr (Some (qrUpdate oversizedChallenge))
   \<and> toDataURL fineEnv oversizedChallenge
        = Inl ''The amount of data is too big to be stored in a QR Code''
   \<and> latestQRCodeDataUrl
        (run (startSocket_onUpdate baileysReasons)
           [(fineEnv, Some (qrUpdate ''2@abc'')), (fineEnv, Some (qrUpdate oversizedChallenge))]
           (initialState None)) = Some ''data:image/png;base64,2@abc''
   \<and> latestQRCodeDataUrl
        (run (startSock_onUpdate baileysReasons)
           [(fineEnv, Some (qrUpdate ''2@abc'')), (fineEnv, Some (qrUpdate oversizedChallenge))]
           (initialState None)) = Some ''data:image/png;base64,2@abc''"
proof -
  have big: "toDataURL fineEnv oversizedChallenge
      = Inl ''The amount of data is too big to be stored in a QR Code''"
    by (simp add: fineEnv_def oversized_fails)
  have small: "toDataURL fineEnv ''2@abc'' = Inr ''data:image/png;base64,2@abc''"
    by (simp add: short_challenge_encodes)
  have t: "truthy_str (Some ''2@abc'')" by (simp add: truthy_str_def)
  show ?thesis
    using big small t oversized_truthy
    by (simp add: carriesQr_def qrUpdate_def startSocket_onUpdate_def startSock_onUpdate_def
        handler_Some disconnectBlock_dir_view disconnectBlock_file_view connectionBlock_absent
        truthy_str_def qrBlock_def log_fields)
qed


text \<open>
  A connecting and a failed attempt before any challenge; the challenge \<open>XYZ\<close> over an
  earlier one; \<open>open\<close> over a shown image.
\<close>

theorem pairing_image_single_slot_witness:
  "noChallenge [(fineEnv, Some (connectionUpdate ''connecting'')), (fineEnv, Some (closeUpdate plainError))]
   \<and> latestQRCodeDataUrl
        (run (startSocket_onUpdate baileysReasons)
           [(fineEnv, Some (connectionUpdate ''connecting'')), (fineEnv, Some (closeUpdate plainError))]
           (initialState None)) = None
   \<and> latestQRCodeDataUrl
        (run (startSock_onUpdate baileysReasons)
           [(fineEnv, Some (connectionUpdate ''connecting'')), (fineEnv, Some (closeUpdate plainError))]
           (initialState None)) = None
   \<and> truthy_str (u_qr (qrUpdate ''XYZ''))
   \<and> toDataURL fineEnv (the (u_qr (qrUpdate ''XYZ''))) = Inr ''data:image/png;base64,XYZ''
   \<and> u_connection (qrUpdate ''XYZ'') \<noteq> Some ''open''
   \<and> latestQRCodeDataUrl (startSocket_onUpdate baileysReasons fineEnv (Some (qrUpdate ''XYZ''))
        pairedState) = Some ''data:image/png;base64,XYZ''
   \<and> qrLastUpdated (startSocket_onUpdate baileysReasons fineEnv (Some (qrUpdate ''XYZ''))
        pairedState) = Some ''2024-05-01T10:00:00.000Z''
   \<and> latestQRCodeDataUrl (startSock_onUpdate baileysReasons fineEnv (Some (qrUpdate ''XYZ''))
        pairedState) = Some ''data:image/png;base64,XYZ''
   \<and> u_connection (connectionUpdate ''open'') = Some ''open''
   \<and> latestQRCodeDataUrl (startSocket_onUpdate baileysReasons fineEnv
        (Some (connectionUpdate ''open'')) pairedState) = None
   \<and> latestQRCodeDataUrl (startSock_onUpdate baileysReasons fineEnv
        (Some (connectionUpdate ''open'')) pairedState) = None"
proof -
  have h1: "noChallenge [(fineEnv, Some (connectionUpdate ''connecting'')),
                         (fineEnv, Some (closeUpdate plainError))]"
    by (simp add: carriesQr_def connectionUpdate_def closeUpdate_def truthy_str_def)
  have h2: "truthy_str (u_qr (qrUpdate ''XYZ''))"
    by (simp add: qrUpdate_def truthy_str_def)
  have h3: "toDataURL fineEnv (the (u_qr (qrUpdate ''XYZ''))) = Inr ''data:image/png;base64,XYZ''"
    by (simp add: qrUpdate_def short_challenge_encodes)
  have h4: "u_connection (qrUpdate ''XYZ'') \<noteq> Some ''open''"
    by (simp add: qrUpdate_def)
  have h5: "u_connection (connectionUpdate ''open'') = Some ''open''"
    by (simp add: connectionUpdate_def)
  have q: "qrDate fineEnv = ''2024-05-01T10:00:00.000Z''"
    by (simp add: fineEnv_def)
  show ?thesis
    using h1 h2 h3 h4 h5 q
      pairing_image_single_slot [where st = None
        and es = "[(fineEnv, Some (connectionUpdate ''connecting'')),
                   (fineEnv, Some (closeUpdate plainError))]"
        and dr = baileysReasons and u = "qrUpdate ''XYZ''" and env = fineEnv
        and d = "''data:image/png;base64,XYZ''" and v = "connectionUpdate ''open''"
        and s = pairedState]
    by simp
qed

section \<open>Deleting the credential store\<close>

lemma deleteAuthDir_logs:
  "logs (deleteAuthDir env s)
     = logs s @ (if authStore s \<noteq> None \<and> fsFailure env \<noteq> None then [(Err, AuthDeleteFailed)] else [])"
  by (auto simp: deleteAuthDir_def catchAuthDelete_def removeAuthDir_def existsSync_def
        rmSync_def Let_def log_fields split: option.splits)

lemma deleteAuthFile_logs:
  "logs (deleteAuthFile env s)
     = logs s @ (if authStore s = None \<or> fsFailure env \<noteq> None then [(Err, AuthDeleteFailed)] else [])"
  by (auto simp: deleteAuthFile_def catchAuthDelete_def unlinkSync_def Let_def log_fields
        split: option.splits)

lemma handlerBody_Some:
  "handlerBody d dr env (Some u) s = Normal (handler d dr env (Some u) s)"
  by (simp add: handler_def handlerBody_def)

text \<open>
  Claim C7. On a store that is already absent the deletion raises nothing that is left
  unhandled: index.js tests \<^verbatim>\<open>existsSync\<close> first and calls nothing, the other file calls
  \<^verbatim>\<open>unlinkSync\<close>, whose ENOENT lands in the catch beside it. In every case the body of the
  handler completes normally and the restart is scheduled with the delay 2000 ms; and
  whenever the removal throws (the file system refuses it, or in the other file the
  file is missing) the last logger call of the handler is the error of that catch.
\<close>

theorem deletion_failure_is_caught:
  assumes "hasDisconnectError u"
    and "strict_eq (disconnectCode (u_lastDisconnect u)) (badSession dr)
         \<or> strict_eq (disconnectCode (u_lastDisconnect u)) (loggedOut dr)"
  shows "(authStore s = None \<longrightarrow>
            removeAuthDir env s = Normal s
          \<and> deleteAuthDir env s = s
          \<and> unlinkSync env s = Throw ''ENOENT'' (s\<lparr>fsCalls := fsCalls s @ [CallUnlinkSync]\<rparr>)
          \<and> deleteAuthFile env s
              = log Err AuthDeleteFailed (s\<lparr>fsCalls := fsCalls s @ [CallUnlinkSync]\<rparr>))
       \<and> handlerBody deleteAuthDir dr env (Some u) s = Normal (startSocket_onUpdate dr env (Some u) s)
       \<and> handlerBody deleteAuthFile dr env (Some u) s = Normal (startSock_onUpdate dr env (Some u) s)
       \<and> timers (startSocket_onUpdate dr env (Some u) s) = timers s @ [2000]
       \<and> timers (startSock_onUpdate dr env (Some u) s) = timers s @ [2000]
       \<and> (authStore s \<noteq> None \<and> fsFailure env \<noteq> None \<longrightarrow>
            logs (startSocket_onUpdate dr env (Some u) s)
              = logs (connectionBlock env u (qrBlock env u s))
                @ [(Warn, LastDisconnect), (Warn, SessionInvalid), (Err, AuthDeleteFailed)])
       \<and> (authStore s = None \<or> fsFailure env \<noteq> None \<longrightarrow>
            logs (startSock_onUpdate dr env (Some u) s)
              = logs (connectionBlock env u (qrBlock env u s))
                @ [(Warn, LastDisconnect), (Warn, SessionInvalid), (Err, AuthDeleteFailed)])"
proof -
  have absent: "removeAuthDir env s = Normal s" "deleteAuthDir env s = s"
    "unlinkSync env s = Throw ''ENOENT'' (s\<lparr>fsCalls := fsCalls s @ [CallUnlinkSync]\<rparr>)"
    "deleteAuthFile env s = log Err AuthDeleteFailed (s\<lparr>fsCalls := fsCalls s @ [CallUnlinkSync]\<rparr>)"
    if "authStore s = None"
    using that
    by (simp_all add: removeAuthDir_def existsSync_def deleteAuthDir_def deleteAuthFile_def
        catchAuthDelete_def unlinkSync_def Let_def)
  have body: "handlerBody deleteAuthDir dr env (Some u) s = Normal (startSocket_onUpdate dr env (Some u) s)"
    "handlerBody deleteAuthFile dr env (Some u) s = Normal (startSock_onUpdate dr env (Some u) s)"
    by (simp_all add: handlerBody_Some startSocket_onUpdate_def startSock_onUpdate_def)
  have restart: "timers (startSocket_onUpdate dr env (Some u) s) = timers s @ [2000]"
    "timers (startSock_onUpdate dr env (Some u) s) = timers s @ [2000]"
    using assms
    by (simp_all add: startSocket_onUpdate_def startSock_onUpdate_def handler_Some
        disconnectBlock_def Let_def setTimeout_fields log_fields deleteAuthDir_effect
        deleteAuthFile_effect qrBlock_frame connectionBlock_frame)
  have logged_dir: "logs (startSocket_onUpdate dr env (Some u) s)
              = logs (connectionBlock env u (qrBlock env u s))
                @ [(Warn, LastDisconnect), (Warn, SessionInvalid), (Err, AuthDeleteFailed)]"
    if "authStore s \<noteq> None \<and> fsFailure env \<noteq> None"
    using assms that
    by (simp add: startSocket_onUpdate_def handler_Some disconnectBlock_def Let_def
        setTimeout_fields log_fields deleteAuthDir_logs qrBlock_frame connectionBlock_frame)
  have logged_file: "logs (startSock_onUpdate dr env (Some u) s)
              = logs (connectionBlock env u (qrBlock env u s))
                @ [(Warn, LastDisconnect), (Warn, SessionInvalid), (Err, AuthDeleteFailed)]"
    if "authStore s = None \<or> fsFailure env \<noteq> None"
    using assms that
    by (simp add: startSock_onUpdate_def handler_Some disconnectBlock_def Let_def
        setTimeout_fields log_fields deleteAuthFile_logs qrBlock_frame connectionBlock_frame)
  from absent body restart logged_dir logged_file show ?thesis by blast
qed

text \<open>
  A logged-out close with no store on disk, and the same close with a store that the
  file system refuses to remove.
\<close>

theorem deletion_failure_is_caught_witness:
  "hasDisconnectError (closeUpdate (boomWith (JNum 401)))
   \<and> strict_eq (disconnectCode (u_lastDisconnect (closeUpdate (boomWith (JNum 401)))))
         (loggedOut baileysReasons)
   \<and> authStore (initialState None) = None
   \<and> removeAuthDir fineEnv (initialState None) = Normal (initialState None)
   \<and> deleteAuthDir fineEnv (initialState None) = initialState None
   \<and> timers (startSocket_onUpdate baileysReasons fineEnv (Some (closeUpdate (boomWith (JNum 401))))
        (initialState None)) = [2000]
   \<and> timers (startSock_onUpdate baileysReasons fineEnv (Some (closeUpdate (boomWith (JNum 401))))
        (initialState None)) = [2000]
   \<and> logs (startSock_onUpdate baileysReasons fineEnv (Some (closeUpdate (boomWith (JNum 401))))
        (initialState None))
       = [(Info, ConnectionUpdate), (Warn, LastDisconnect), (Warn, SessionInvalid),
          (Err, AuthDeleteFailed)]
   \<and> timers (startSocket_onUpdate baileysReasons readOnlyEnv
        (Some (closeUpdate (boomWith (JNum 401)))) (initialState (Some ''creds''))) = [2000]
   \<and> logs (startSocket_onUpdate baileysReasons readOnlyEnv
        (Some (closeUpdate (boomWith (JNum 401)))) (initialState (Some ''creds'')))
       = [(Info, ConnectionUpdate), (Warn, LastDisconnect), (Warn, SessionInvalid),
          (Err, AuthDeleteFailed)]"
proof -
  have h1: "hasDisconnectError (closeUpdate (boomWith (JNum 401)))"
    by (rule closeUpdate_hasError)
  have h2: "strict_eq (disconnectCode (u_lastDisconnect (closeUpdate (boomWith (JNum 401)))))
         (loggedOut baileysReasons)"
    by (simp add: closeUpdate_boom_code strict_eq_def baileysReasons_def)
  have pre: "logs (connectionBlock fineEnv (closeUpdate (boomWith (JNum 401)))
                (qrBlock fineEnv (closeUpdate (boomWith (JNum 401))) (initialState None)))
             = [(Info, ConnectionUpdate)]"
    by (simp add: qrBlock_def connectionBlock_def closeUpdate_def truthy_str_def Let_def
        log_fields initialState_fields)
  have pre': "logs (connectionBlock readOnlyEnv (closeUpdate (boomWith (JNum 401)))
                (qrBlock readOnlyEnv (closeUpdate (boomWith (JNum 401))) (initialState (Some ''creds''))))
             = [(Info, ConnectionUpdate)]"
    by (simp add: qrBlock_def connectionBlock_def closeUpdate_def truthy_str_def Let_def
        log_fields initialState_fields)
  have ro: "fsFailure readOnlyEnv = Some ''EACCES''"
    by (simp add: readOnlyEnv_def)
  show ?thesis
    using h1 h2 pre pre' ro
      deletion_failure_is_caught [OF h1 disjI2 [OF h2], of "initialState None" fineEnv]
      deletion_failure_is_caught [OF h1 disjI2 [OF h2], of "initialState (Some ''creds'')" readOnlyEnv]
    by (simp add: initialState_fields)
qed

section \<open>Starting\<close>

lemma resolveVersion_pending: "resolveVersion p s = None \<longleftrightarrow> p = Pending"
  by (simp add: resolveVersion_def split: promise.splits)

lemma resolveVersion_fallback:
  assumes "p = Rejected e \<or> p = Fulfilled FetchedFalsy \<or> p = Fulfilled (FetchedObject None)"
  shows "\<exists>s1. resolveVersion p s = Some ([2, 2204, 13], s1)
              \<and> socketCalls s1 = socketCalls s \<and> timers s1 = timers s"
  using assms by (auto simp: resolveVersion_def fallbackVersion_def log_fields)

lemma resolveVersion_frame:
  "resolveVersion p s = Some (v, s1) \<Longrightarrow>
     socketCalls s1 = socketCalls s \<and> timers s1 = timers s \<and> fsCalls s1 = fsCalls s
     \<and> (\<exists>l. logs s1 = logs s @ [l])"
  by (auto simp: resolveVersion_def log_fields split: promise.splits)

lemma catchStart_None: "catchStart r = None \<longleftrightarrow> r = None"
  by (simp add: catchStart_def split: option.splits sum.splits prod.splits)

lemma startSocket_pending: "startSocket sio s = None \<longleftrightarrow> fetchLatestBaileysVersion sio = Pending"
proof -
  have "startSocketBody sio s = None \<longleftrightarrow>
        resolveVersion (fetchLatestBaileysVersion sio)
          (s\<lparr>connectionStatus := ''fetching-baileys-version''\<rparr>) = None"
    by (simp add: startSocketBody_def split: option.splits prod.splits)
  then show ?thesis
    by (simp add: startSocket_def catchStart_None resolveVersion_pending)
qed

lemma startSock_pending:
  "startSock sio auth store s = None \<longleftrightarrow> fetchLatestBaileysVersion sio = Pending"
proof -
  have "startSockBody sio auth store s = None \<longleftrightarrow>
        resolveVersion (fetchLatestBaileysVersion sio)
          (s\<lparr>connectionStatus := ''fetching-baileys-version''\<rparr>) = None"
    by (simp add: startSockBody_def split: option.splits prod.splits)
  then show ?thesis
    by (simp add: startSock_def catchStart_None resolveVersion_pending)
qed

lemma startSocket_calls:
  assumes "resolveVersion (fetchLatestBaileysVersion sio)
             (s\<lparr>connectionStatus := ''fetching-baileys-version''\<rparr>) = Some (v, s1)"
    and "authStateFailure sio = None"
  shows "\<exists>r s'. startSocket sio s = Some (r, s')
          \<and> map cfg_version (socketCalls s') = map cfg_version (socketCalls s) @ [v]"
proof -
  from resolveVersion_frame [OF assms(1)] have "socketCalls s1 = socketCalls s" by simp
  with assms show ?thesis
    by (auto simp: startSocket_def catchStart_def startSocketBody_def useMultiFileAuthState_def
        Let_def setTimeout_fields log_fields storeBlock_def
        split: option.splits store_lib.splits store_val.splits)
qed

lemma startSocket_settles:
  assumes "fetchLatestBaileysVersion sio \<noteq> Pending"
  shows "\<exists>r s'. startSocket sio s = Some (r, s')"
  using assms startSocket_pending [of sio s] by (cases "startSocket sio s") auto

lemma startSock_calls:
  assumes "resolveVersion (fetchLatestBaileysVersion sio)
             (s\<lparr>connectionStatus := ''fetching-baileys-version''\<rparr>) = Some (v, s1)"
  shows "\<exists>r s'. startSock sio auth store s = Some (r, s')
          \<and> socketCalls s' = socketCalls s @ [\<lparr>cfg_version = v, cfg_auth = auth\<rparr>]"
proof -
  from resolveVersion_frame [OF assms(1)] have "socketCalls s1 = socketCalls s" by simp
  with assms show ?thesis
    by (auto simp: startSock_def catchStart_def startSockBody_def
        Let_def setTimeout_fields log_fields split: option.splits)
qed

text \<open>
  Claim C5, as the code has it. The start function of either file goes past the version
  lookup exactly when the promise of the lookup settles: it awaits the lookup as it is,
  with no argument and no timer of its own. Whenever the lookup fails, by rejecting
  (for whatever reason, a timeout that the lookup itself reports among them) or by
  fulfilling with no version array, the start function returns, and the socket is built
  with the version \<open>[2, 2204, 13]\<close> (in index.js once the credentials have loaded).
\<close>

theorem version_fallback_when_lookup_fails:
  "(startSocket sio s = None \<longleftrightarrow> fetchLatestBaileysVersion sio = Pending)
   \<and> (startSock sio auth store s = None \<longleftrightarrow> fetchLatestBaileysVersion sio = Pending)
   \<and> (fetchLatestBaileysVersion sio = Rejected e
        \<or> fetchLatestBaileysVersion sio = Fulfilled FetchedFalsy
        \<or> fetchLatestBaileysVersion sio = Fulfilled (FetchedObject None) \<longrightarrow>
       (\<exists>r s'. startSocket sio s = Some (r, s')
           \<and> (authStateFailure sio = None \<longrightarrow>
                map cfg_version (socketCalls s') = map cfg_version (socketCalls s) @ [[2, 2204, 13]]))
     \<and> (\<exists>r s'. startSock sio auth store s = Some (r, s')
           \<and> socketCalls s' = socketCalls s @ [\<lparr>cfg_version = [2, 2204, 13], cfg_auth = auth\<rparr>]))"
proof -
  have main: "(\<exists>r s'. startSocket sio s = Some (r, s')
           \<and> (authStateFailure sio = None \<longrightarrow>
                map cfg_version (socketCalls s') = map cfg_version (socketCalls s) @ [[2, 2204, 13]]))
     \<and> (\<exists>r s'. startSock sio auth store s = Some (r, s')
           \<and> socketCalls s' = socketCalls s @ [\<lparr>cfg_version = [2, 2204, 13], cfg_auth = auth\<rparr>])"
    if f: "fetchLatestBaileysVersion sio = Rejected e
        \<or> fetchLatestBaileysVersion sio = Fulfilled FetchedFalsy
        \<or> fetchLatestBaileysVersion sio = Fulfilled (FetchedObject None)"
  proof -
    from resolveVersion_fallback [OF f]
    obtain s1 where r: "resolveVersion (fetchLatestBaileysVersion sio)
             (s\<lparr>connectionStatus := ''fetching-baileys-version''\<rparr>) = Some ([2, 2204, 13], s1)"
      by blast
    from f have np: "fetchLatestBaileysVersion sio \<noteq> Pending" by auto
    have a: "\<exists>r s'. startSocket sio s = Some (r, s')
           \<and> (authStateFailure sio = None \<longrightarrow>
                map cfg_version (socketCalls s') = map cfg_version (socketCalls s) @ [[2, 2204, 13]])"
    proof (cases "authStateFailure sio = None")
      case True
      with startSocket_calls [OF r True] show ?thesis by blast
    next
      case False
      with startSocket_settles [OF np, of s] show ?thesis by auto
    qed
    from a startSock_calls [OF r] show ?thesis by blast
  qed
  from main startSocket_pending startSock_pending show ?thesis by blast
qed

text \<open>
  The claim as written says the lookup has a bounded timeout and the start function
  never blocks on it. With a lookup whose promise stays pending, the start function of
  either file never returns, and index.js stays waiting at its first await:
\<close>

theorem lookup_never_settling_blocks_start:
  "fetchLatestBaileysVersion (startEnv Pending) = Pending
   \<and> startSocket (startEnv Pending) (initialState None) = None
   \<and> startSock (startEnv Pending) [] StoreNull (initialState None) = None
   \<and> indexMain (startEnv Pending) None = Waiting"
proof -
  have p: "fetchLatestBaileysVersion (startEnv Pending) = Pending"
    by (simp add: startEnv_def)
  then have a: "startSocket (startEnv Pending) (initialState None) = None"
    by (simp add: startSocket_pending)
  from p have b: "startSock (startEnv Pending) [] StoreNull (initialState None) = None"
    by (simp add: startSock_pending)
  from a have "indexMain (startEnv Pending) None = Waiting"
    by (simp add: indexMain_def)
  with p a b show ?thesis by simp
qed


text \<open>A lookup that rejects with a timeout of its own.\<close>

theorem version_fallback_when_lookup_fails_witness:
  "fetchLatestBaileysVersion (startEnv (Rejected ''timeout of 5000ms exceeded''))
     = Rejected ''timeout of 5000ms exceeded''
   \<and> authStateFailure (startEnv (Rejected ''timeout of 5000ms exceeded'')) = None
   \<and> (\<exists>r s'. startSocket (startEnv (Rejected ''timeout of 5000ms exceeded'')) (initialState None)
                 = Some (r, s')
           \<and> map cfg_version (socketCalls s') = [[2, 2204, 13]])
   \<and> (\<exists>r s'. startSock (startEnv (Rejected ''timeout of 5000ms exceeded'')) ''creds'' StoreNull
                 (initialState None) = Some (r, s')
           \<and> socketCalls s' = [\<lparr>cfg_version = [2, 2204, 13], cfg_auth = ''creds''\<rparr>])"
proof -
  have h1: "fetchLatestBaileysVersion (startEnv (Rejected ''timeout of 5000ms exceeded''))
     = Rejected ''timeout of 5000ms exceeded''"
    by (simp add: startEnv_def)
  have h2: "authStateFailure (startEnv (Rejected ''timeout of 5000ms exceeded'')) = None"
    by (simp add: startEnv_def)
  show ?thesis
    using h1 h2
      version_fallback_when_lookup_fails [where sio = "startEnv (Rejected ''timeout of 5000ms exceeded'')"
        and s = "initialState None" and auth = "''creds''" and store = StoreNull
        and e = "''timeout of 5000ms exceeded''"]
    by (simp add: initialState_fields)
qed

text \<open>What a throw inside the start function leaves untouched.\<close>

lemma startSocketBody_throw_frame:
  assumes "startSocketBody sio s = Some (Inl (e, s1))"
  shows "timers s1 = timers s \<and> fsCalls s1 = fsCalls s"
proof -
  from assms obtain v s0 where r: "resolveVersion (fetchLatestBaileysVersion sio)
      (s\<lparr>connectionStatus := ''fetching-baileys-version''\<rparr>) = Some (v, s0)"
    by (auto simp: startSocketBody_def split: option.splits)
  from resolveVersion_frame [OF r] have f: "timers s0 = timers s" "fsCalls s0 = fsCalls s"
    by simp_all
  from assms r f show ?thesis
    by (auto simp: startSocketBody_def useMultiFileAuthState_def Let_def
        split: option.splits)
qed

lemma startSockBody_throw_frame:
  assumes "startSockBody sio auth store s = Some (Inl (e, s1))"
  shows "timers s1 = timers s \<and> fsCalls s1 = fsCalls s \<and> authStore s1 = authStore s"
proof -
  from assms obtain v s0 where r: "resolveVersion (fetchLatestBaileysVersion sio)
      (s\<lparr>connectionStatus := ''fetching-baileys-version''\<rparr>) = Some (v, s0)"
    by (auto simp: startSockBody_def split: option.splits)
  then have f: "timers s0 = timers s" "fsCalls s0 = fsCalls s" "authStore s0 = authStore s"
    by (auto simp: resolveVersion_def log_fields split: promise.splits)
  from assms r f show ?thesis
    by (auto simp: startSockBody_def Let_def split: option.splits if_splits)
qed

lemma unclassified_timers:
  assumes "hasDisconnectError u"
    and "\<not> strict_eq (disconnectCode (u_lastDisconnect u)) (badSession dr)"
    and "\<not> strict_eq (disconnectCode (u_lastDisconnect u)) (loggedOut dr)"
    and "\<not> strict_eq (disconnectCode (u_lastDisconnect u)) (restartRequired dr)"
    and "\<not> strict_eq (disconnectCode (u_lastDisconnect u)) (connectionClosed dr)"
  shows "timers (handler d dr env (Some u) s) = timers s @ [5000]"
  using assms
  by (simp add: handler_Some disconnectBlock_def Let_def setTimeout_fields log_fields
      qrBlock_frame connectionBlock_frame)

text \<open>
  Claim C6. When the body of the start function throws, in either file, the catch logs
  the failure at error level and schedules exactly one restart with the delay 5000 ms;
  the function then returns undefined. The file system is asked nothing. The delay is
  the one the handler schedules for a disconnect whose reason code is unclassified.
  A socket construction that throws is such a failure, whenever the version lookup
  has settled (and, in index.js, the credentials have loaded).
\<close>

theorem start_failure_retries_after_long_delay:
  "(startSocketBody sio s = Some (Inl (e, s1)) \<longrightarrow>
      startSocket sio s = Some (None, setTimeout 5000 (log Err StartError s1))
    \<and> timers (setTimeout 5000 (log Err StartError s1)) = timers s @ [5000]
    \<and> logs (setTimeout 5000 (log Err StartError s1)) = logs s1 @ [(Err, StartError)]
    \<and> fsCalls (setTimeout 5000 (log Err StartError s1)) = fsCalls s
    \<and> (unclassified dr u \<longrightarrow>
         timers (setTimeout 5000 (log Err StartError s1))
           = timers (startSocket_onUpdate dr env (Some u) s)))
   \<and> (startSockBody sio auth store s = Some (Inl (e, s1)) \<longrightarrow>
      startSock sio auth store s = Some (None, setTimeout 5000 (log Err StartError s1))
    \<and> timers (setTimeout 5000 (log Err StartError s1)) = timers s @ [5000]
    \<and> logs (setTimeout 5000 (log Err StartError s1)) = logs s1 @ [(Err, StartError)]
    \<and> fsCalls (setTimeout 5000 (log Err StartError s1)) = fsCalls s
    \<and> authStore (setTimeout 5000 (log Err StartError s1)) = authStore s
    \<and> (unclassified dr u \<longrightarrow>
         timers (setTimeout 5000 (log Err StartError s1))
           = timers (startSock_onUpdate dr env (Some u) s)))
   \<and> (fetchLatestBaileysVersion sio \<noteq> Pending \<and> authStateFailure sio = None
        \<and> makeWASocket sio = socketFailure \<longrightarrow>
        (\<exists>s2. startSocketBody sio s = Some (Inl (''socket construction failed'', s2)))
      \<and> (\<exists>s2. startSockBody sio auth store s = Some (Inl (''socket construction failed'', s2))))"
proof -
  have a: "startSocket sio s = Some (None, setTimeout 5000 (log Err StartError s1))"
    "timers (setTimeout 5000 (log Err StartError s1)) = timers s @ [5000]"
    "logs (setTimeout 5000 (log Err StartError s1)) = logs s1 @ [(Err, StartError)]"
    "fsCalls (setTimeout 5000 (log Err StartError s1)) = fsCalls s"
    "unclassified dr u \<longrightarrow>
         timers (setTimeout 5000 (log Err StartError s1))
           = timers (startSocket_onUpdate dr env (Some u) s)"
    if b: "startSocketBody sio s = Some (Inl (e, s1))"
    using b startSocketBody_throw_frame [OF b]
    by (simp_all add: startSocket_def catchStart_def setTimeout_fields log_fields
        unclassified_def startSocket_onUpdate_def unclassified_timers)
  have c: "startSock sio auth store s = Some (None, setTimeout 5000 (log Err StartError s1))"
    "timers (setTimeout 5000 (log Err StartError s1)) = timers s @ [5000]"
    "logs (setTimeout 5000 (log Err StartError s1)) = logs s1 @ [(Err, StartError)]"
    "fsCalls (setTimeout 5000 (log Err StartError s1)) = fsCalls s"
    "authStore (setTimeout 5000 (log Err StartError s1)) = authStore s"
    "unclassified dr u \<longrightarrow>
         timers (setTimeout 5000 (log Err StartError s1))
           = timers (startSock_onUpdate dr env (Some u) s)"
    if b: "startSockBody sio auth store s = Some (Inl (e, s1))"
    using b startSockBody_throw_frame [OF b]
    by (simp_all add: startSock_def catchStart_def setTimeout_fields log_fields
        unclassified_def startSock_onUpdate_def unclassified_timers)
  have d: "\<exists>s2. startSocketBody sio s = Some (Inl (''socket construction failed'', s2))"
    "\<exists>s2. startSockBody sio auth store s = Some (Inl (''socket construction failed'', s2))"
    if "fetchLatestBaileysVersion sio \<noteq> Pending \<and> authStateFailure sio = None
        \<and> makeWASocket sio = socketFailure"
    using that
    by (auto simp: startSocketBody_def startSockBody_def resolveVersion_def
        useMultiFileAuthState_def socketFailure_def Let_def split: promise.splits)
  from a c d show ?thesis by blast
qed


text \<open>A socket construction that throws, after a lookup that gave a version.\<close>

lemma unclassified_plain: "unclassified baileysReasons (closeUpdate plainError)"
  by (simp add: unclassified_def closeUpdate_hasError closeUpdate_plain_code strict_eq_def
      baileysReasons_def)

theorem start_failure_retries_after_long_delay_witness:
  "(\<exists>s'. startSocket throwingSocketEnv (initialState (Some ''creds'')) = Some (None, s')
         \<and> timers s' = [5000]
         \<and> timers s' = timers (startSocket_onUpdate baileysReasons fineEnv
                                  (Some (closeUpdate plainError)) (initialState (Some ''creds''))))
   \<and> (\<exists>s'. startSock throwingSocketEnv ''creds'' StoreNull (initialState (Some ''creds''))
              = Some (None, s')
         \<and> timers s' = [5000] \<and> authStore s' = Some ''creds''
         \<and> timers s' = timers (startSock_onUpdate baileysReasons fineEnv
                                  (Some (closeUpdate plainError)) (initialState (Some ''creds''))))"
proof -
  let ?s = "initialState (Some ''creds'')"
  have h: "fetchLatestBaileysVersion throwingSocketEnv \<noteq> Pending
           \<and> authStateFailure throwingSocketEnv = None
           \<and> makeWASocket throwingSocketEnv = socketFailure"
    by (simp add: throwingSocketEnv_def)
  have t: "timers ?s @ [5000] = [5000]" and c: "authStore ?s = Some ''creds''"
    by (simp_all add: initialState_fields)
  note u = unclassified_plain
  from h start_failure_retries_after_long_delay [where sio = throwingSocketEnv and s = ?s
      and auth = "''creds''" and store = StoreNull]
  obtain a b where
    a: "startSocketBody throwingSocketEnv ?s = Some (Inl (''socket construction failed'', a))"
    and b: "startSockBody throwingSocketEnv ''creds'' StoreNull ?s
              = Some (Inl (''socket construction failed'', b))"
    by blast
  from a u start_failure_retries_after_long_delay [where sio = throwingSocketEnv and s = ?s
      and e = "''socket construction failed''" and ?s1.0 = a and dr = baileysReasons
      and u = "closeUpdate plainError" and env = fineEnv]
  have a1: "startSocket throwingSocketEnv ?s = Some (None, setTimeout 5000 (log Err StartError a))"
    and a2: "timers (setTimeout 5000 (log Err StartError a)) = timers ?s @ [5000]"
    and a3: "timers (setTimeout 5000 (log Err StartError a))
              = timers (startSocket_onUpdate baileysReasons fineEnv (Some (closeUpdate plainError)) ?s)"
    by blast+
  from b u start_failure_retries_after_long_delay [where sio = throwingSocketEnv and s = ?s
      and auth = "''creds''" and store = StoreNull
      and e = "''socket construction failed''" and ?s1.0 = b and dr = baileysReasons
      and u = "closeUpdate plainError" and env = fineEnv]
  have b1: "startSock throwingSocketEnv ''creds'' StoreNull ?s
              = Some (None, setTimeout 5000 (log Err StartError b))"
    and b2: "timers (setTimeout 5000 (log Err StartError b)) = timers ?s @ [5000]"
    and b3: "timers (setTimeout 5000 (log Err StartError b))
              = timers (startSock_onUpdate baileysReasons fineEnv (Some (closeUpdate plainError)) ?s)"
    and b4: "authStore (setTimeout 5000 (log Err StartError b)) = authStore ?s"
    by blast+
  from a1 a2 [unfolded t] a3 b1 b2 [unfolded t] b3 b4 [unfolded c] show ?thesis
    by blast
qed

section \<open>Failures that end the process\<close>

text \<open>
  index.js runs every fallible call inside the try of \<^verbatim>\<open>startSocket\<close>: whatever fails,
  the process runs on. The other file loads the credentials as a module statement, in
  no try.
\<close>

lemma part000Main_load_failure:
  "authStateFailure sio = Some e \<Longrightarrow> part000Main sio store = Terminated e"
  by (simp add: part000Main_def)

lemma indexMain_never_terminated: "indexMain sio store \<noteq> Terminated e"
  by (simp add: indexMain_def split: option.splits prod.splits)

lemma indexMain_load_failure:
  assumes "authStateFailure sio = Some e" and "fetchLatestBaileysVersion sio \<noteq> Pending"
  shows "\<exists>s. indexMain sio store = Running s \<and> timers s = [5000]
             \<and> last (logs s) = (Err, StartError)"
  using assms
  by (auto simp: indexMain_def startSocket_def catchStart_def startSocketBody_def
      resolveVersion_def useMultiFileAuthState_def setTimeout_fields log_fields
      initialState_fields split: promise.splits)

text \<open>
  Claim C8. No failure should end the process. With a credentials file that does not
  parse, the other file ends at its first module statement, with no logger call and no
  restart; index.js, with the same failure, logs it and schedules a restart with the
  delay 5000 ms.
\<close>

theorem credential_load_failure_ends_part000:
  "part000Main corruptAuthEnv (Some ''{'') = Terminated ''SyntaxError: Unexpected end of JSON input''
   \<and> (\<exists>s. indexMain corruptAuthEnv (Some ''{'') = Running s \<and> timers s = [5000]
          \<and> last (logs s) = (Err, StartError))"
proof -
  have f: "authStateFailure corruptAuthEnv = Some ''SyntaxError: Unexpected end of JSON input''"
    by (simp add: corruptAuthEnv_def)
  have p: "fetchLatestBaileysVersion corruptAuthEnv \<noteq> Pending"
    by (simp add: corruptAuthEnv_def)
  from part000Main_load_failure [OF f] indexMain_load_failure [OF f p] show ?thesis
    by simp
qed

end
